theory Spec2Isabelle
  imports Complex_Main "HOL-Library.Word"
begin

section \<open>Numbers, vectors and errors\<close>

text \<open>
  The C++ computes in \<^verbatim>\<open>float\<close>. Here a finite float is read as the real number it
  denotes and every operation on finite floats is exact: no rounding, no overflow.
  What IEEE arithmetic does where a real number has no answer is written out at each
  place the source can reach it: the sentinel \<^verbatim>\<open>infinity()\<close>, a quotient with divisor
  zero (infinite or NaN), and comparisons with NaN (always false).

  Vertex indices are \<^verbatim>\<open>uint32_t\<close>, so \<open>32 word\<close>; \<^verbatim>\<open>-1U\<close> is the word \<open>- 1\<close>.
\<close>

datatype vec3 = Vec3 (vx: real) (vy: real) (vz: real)

datatype uvec3 = UVec3 (ux: "32 word") (uy: "32 word") (uz: "32 word")

datatype quat = Quat real real real real

text \<open>A float that may be infinite or NaN (used for the crossing times).\<close>

datatype flt = Fin real | PInf | NInf | NaN

datatype error =
    AssertFailed        \<comment> \<open>an \<^verbatim>\<open>assert\<close> of the source does not hold\<close>
  | OutOfRange          \<comment> \<open>\<^verbatim>\<open>vertices[i]\<close> read past the end of the buffer\<close>
  | NonFinite           \<comment> \<open>the source goes on with infinite or NaN components\<close>
  | RuntimeError string \<comment> \<open>\<^verbatim>\<open>throw std::runtime_error(...)\<close>\<close>

definition vadd :: "vec3 \<Rightarrow> vec3 \<Rightarrow> vec3" where
  "vadd p q = Vec3 (vx p + vx q) (vy p + vy q) (vz p + vz q)"

definition vsub :: "vec3 \<Rightarrow> vec3 \<Rightarrow> vec3" where
  "vsub p q = Vec3 (vx p - vx q) (vy p - vy q) (vz p - vz q)"

definition smul :: "real \<Rightarrow> vec3 \<Rightarrow> vec3" where
  "smul k p = Vec3 (k * vx p) (k * vy p) (k * vz p)"

definition dot :: "vec3 \<Rightarrow> vec3 \<Rightarrow> real" where
  "dot p q = vx p * vx q + vy p * vy q + vz p * vz q"

definition cross :: "vec3 \<Rightarrow> vec3 \<Rightarrow> vec3" where
  "cross p q = Vec3 (vy p * vz q - vz p * vy q)
                    (vz p * vx q - vx p * vz q)
                    (vx p * vy q - vy p * vx q)"

definition length2 :: "vec3 \<Rightarrow> real" where
  "length2 p = dot p p"

text \<open>\<^verbatim>\<open>glm::mix(a, b, t)\<close> is \<open>a * (1 - t) + b * t\<close>.\<close>

definition mix :: "vec3 \<Rightarrow> vec3 \<Rightarrow> real \<Rightarrow> vec3" where
  "mix a b t = vadd (smul (1 - t) a) (smul t b)"

text \<open>
  \<^verbatim>\<open>glm::normalize(v)\<close> is \<open>v * inversesqrt(dot(v, v))\<close>. On the zero vector that is
  \<open>0 * infinity\<close>, NaN in every component: \<open>None\<close>.
\<close>

definition normalize :: "vec3 \<Rightarrow> vec3 option" where
  "normalize v = (if dot v v = 0 then None else Some (smul (1 / sqrt (dot v v)) v))"

text \<open>IEEE \<^verbatim>\<open><\<close>: false as soon as one side is NaN.\<close>

fun flt_less :: "flt \<Rightarrow> flt \<Rightarrow> bool" where
  "flt_less (Fin a) (Fin b) = (a < b)"
| "flt_less (Fin a) PInf = True"
| "flt_less NInf (Fin b) = True"
| "flt_less NInf PInf = True"
| "flt_less _ _ = False"

text \<open>
  The quotient \<open>x / y\<close> of two finite floats where a zero divisor is \<open>+0\<close> (the
  difference of two equal floats): \<open>0 / 0\<close> is NaN, and a nonzero \<open>x\<close> over zero is
  the infinity of the sign of \<open>x\<close>.
\<close>

definition fdiv :: "real \<Rightarrow> real \<Rightarrow> flt" where
  "fdiv x y = (if y \<noteq> 0 then Fin (x / y)
               else if x = 0 then NaN
               else if 0 < x then PInf else NInf)"

section \<open>The walk mesh\<close>

record WalkPoint =
  indices :: uvec3
  weights :: vec3

record WalkMesh =
  vertices :: "vec3 list"
  normals :: "vec3 list"
  triangles :: "uvec3 list"
  next_vertex :: "32 word \<times> 32 word \<rightharpoonup> 32 word"

text \<open>\<^verbatim>\<open>vertices[i]\<close>; reading past the end is undefined in C++, \<open>None\<close> here.\<close>

definition vertex :: "WalkMesh \<Rightarrow> 32 word \<Rightarrow> vec3 option" where
  "vertex m i = (if unat i < length (vertices m) then Some (vertices m ! unat i) else None)"

text \<open>
  Modelled from the spec: \<^verbatim>\<open>WalkMesh::to_world_point\<close> is declared in WalkMesh.hpp,
  which is not among the sources. The spec: the world position of a WalkPoint is the
  weighted sum of its triangle's vertices by its barycentric weights.
\<close>

definition to_world_point :: "WalkMesh \<Rightarrow> WalkPoint \<Rightarrow> vec3 option" where
  "to_world_point m p =
     (case (vertex m (ux (indices p)), vertex m (uy (indices p)), vertex m (uz (indices p))) of
        (Some a, Some b, Some c) \<Rightarrow>
          Some (vadd (vadd (smul (vx (weights p)) a) (smul (vy (weights p)) b))
                     (smul (vz (weights p)) c))
      | _ \<Rightarrow> None)"

subsection \<open>Barycentric projection\<close>

text \<open>
  Cramer's rule, as in the source. With \<open>denom = 0\<close> both quotients are infinite or
  NaN, and so is \<open>u\<close>: \<open>None\<close>.
\<close>

definition barycentric_weights :: "vec3 \<Rightarrow> vec3 \<Rightarrow> vec3 \<Rightarrow> vec3 \<Rightarrow> vec3 option" where
  "barycentric_weights a b c pt =
     (let v0 = vsub b a; v1 = vsub c a; v2 = vsub pt a;
          d00 = dot v0 v0;
          d01 = dot v0 v1;
          d11 = dot v1 v1;
          d20 = dot v2 v0;
          d21 = dot v2 v1;
          denom = d00 * d11 - d01 * d01
      in if denom = 0 then None
         else let v = (d11 * d20 - d01 * d21) / denom;
                  w = (d00 * d21 - d01 * d20) / denom;
                  u = 1 - v - w
              in Some (Vec3 u v w))"

subsection \<open>walk_in_triangle\<close>

text \<open>
  The lambda \<^verbatim>\<open>cross_on_edge\<close>, with the two variables it captures by reference as
  the state \<open>(min_time, min_coord)\<close>.
\<close>

definition cross_on_edge :: "flt \<times> 32 word \<Rightarrow> 32 word \<Rightarrow> real \<Rightarrow> real \<Rightarrow> flt \<times> 32 word" where
  "cross_on_edge st coord dest_w start_w =
     (if dest_w > 0 then st
      else let time = fdiv (- start_w) (dest_w - start_w)
           in if flt_less time (fst st) then (time, coord) else st)"

text \<open>\<^verbatim>\<open>std::min(1.0f, min_time)\<close> returns its second argument only when it is less.\<close>

definition min1 :: "flt \<Rightarrow> flt" where
  "min1 min_time = (if flt_less min_time (Fin 1) then min_time else Fin 1)"

text \<open>
  Lines 139 to 145: the destination \<open>to_world_point(start) + step\<close> in barycentric
  coordinates of the start triangle.
\<close>

definition dest_bary :: "WalkMesh \<Rightarrow> WalkPoint \<Rightarrow> vec3 \<Rightarrow> error + vec3" where
  "dest_bary m start step =
     (case (vertex m (ux (indices start)), vertex m (uy (indices start)),
            vertex m (uz (indices start)), to_world_point m start) of
        (Some a, Some b, Some c, Some p) \<Rightarrow>
          (case barycentric_weights a b c (vadd p step) of
             None \<Rightarrow> Inl NonFinite
           | Some d \<Rightarrow> Inr d)
      | _ \<Rightarrow> Inl OutOfRange)"

text \<open>Lines 146 to 161: the three calls of \<^verbatim>\<open>cross_on_edge\<close>.\<close>

definition first_cross :: "vec3 \<Rightarrow> vec3 \<Rightarrow> flt \<times> 32 word" where
  "first_cross d s =
     (let st0 = (PInf, - 1);
          st1 = cross_on_edge st0 0 (vx d) (vx s);
          st2 = cross_on_edge st1 1 (vy d) (vy s)
      in cross_on_edge st2 2 (vz d) (vz s))"

text \<open>
  After \<^verbatim>\<open>assert(time > 0.0f)\<close> the time is a positive real or \<open>+infinity\<close>; the
  latter cannot come out of \<open>min1\<close>, and the model marks it \<open>NonFinite\<close>.
\<close>

definition walk_in_triangle :: "WalkMesh \<Rightarrow> WalkPoint \<Rightarrow> vec3 \<Rightarrow> error + (WalkPoint \<times> real)" where
  "walk_in_triangle m start step =
     (case dest_bary m start step of
        Inl e \<Rightarrow> Inl e
      | Inr d \<Rightarrow>
          let st = first_cross d (weights start);
              min_coord = snd st
          in (case min1 (fst st) of
                Fin time \<Rightarrow>
                  if \<not> time > 0 then Inl AssertFailed
                  else
                    let w = vadd (weights start) (smul time (vsub d (weights start)))
                    in if min_coord = 0 then
                         Inr (\<lparr>indices = UVec3 (uy (indices start)) (uz (indices start))
                                                (ux (indices start)),
                               weights = Vec3 (vy w) (vz w) 0\<rparr>, time)
                       else if min_coord = 1 then
                         Inr (\<lparr>indices = UVec3 (uz (indices start)) (ux (indices start))
                                                (uy (indices start)),
                               weights = Vec3 (vz w) (vx w) 0\<rparr>, time)
                       else if min_coord = 2 then
                         Inr (\<lparr>indices = indices start,
                               weights = Vec3 (vx w) (vy w) 0\<rparr>, time)
                       else Inr (\<lparr>indices = indices start, weights = w\<rparr>, time)
              | PInf \<Rightarrow> Inl NonFinite
              | _ \<Rightarrow> Inl AssertFailed))"

subsection \<open>Construction\<close>

text \<open>
  \<^verbatim>\<open>do_next\<close> inserts the directed edge \<open>(a, b)\<close> and asserts that the key was new.
\<close>

definition do_next ::
  "(32 word \<times> 32 word \<rightharpoonup> 32 word) \<Rightarrow> 32 word \<Rightarrow> 32 word \<Rightarrow> 32 word
     \<Rightarrow> error + (32 word \<times> 32 word \<rightharpoonup> 32 word)" where
  "do_next nv a b c = (if nv (a, b) \<noteq> None then Inl AssertFailed else Inr (nv((a, b) \<mapsto> c)))"

fun build_next_vertex ::
  "uvec3 list \<Rightarrow> (32 word \<times> 32 word \<rightharpoonup> 32 word) \<Rightarrow> error + (32 word \<times> 32 word \<rightharpoonup> 32 word)" where
  "build_next_vertex [] nv = Inr nv"
| "build_next_vertex (tri # tris) nv =
     (case do_next nv (ux tri) (uy tri) (uz tri) of
        Inl e \<Rightarrow> Inl e
      | Inr nv1 \<Rightarrow>
          (case do_next nv1 (uy tri) (uz tri) (ux tri) of
             Inl e \<Rightarrow> Inl e
           | Inr nv2 \<Rightarrow>
               (case do_next nv2 (uz tri) (ux tri) (uy tri) of
                  Inl e \<Rightarrow> Inl e
                | Inr nv3 \<Rightarrow> build_next_vertex tris nv3)))"

definition nth_opt :: "'a list \<Rightarrow> 32 word \<Rightarrow> 'a option" where
  "nth_opt xs i = (if unat i < length xs then Some (xs ! unat i) else None)"

text \<open>
  The consistency check of one triangle. On a triangle of area zero \<open>out\<close> is NaN, the
  three dot products are NaN and the assertion fails.
\<close>

definition check_normal :: "vec3 list \<Rightarrow> vec3 list \<Rightarrow> uvec3 \<Rightarrow> error + unit" where
  "check_normal vs ns tri =
     (case (nth_opt vs (ux tri), nth_opt vs (uy tri), nth_opt vs (uz tri)) of
        (Some a, Some b, Some c) \<Rightarrow>
          (case normalize (cross (vsub b a) (vsub c a)) of
             None \<Rightarrow> Inl AssertFailed
           | Some out \<Rightarrow>
               (case (nth_opt ns (ux tri), nth_opt ns (uy tri), nth_opt ns (uz tri)) of
                  (Some na, Some nb, Some nc) \<Rightarrow>
                    let da = dot out na; db = dot out nb; dc = dot out nc
                    in if da > 0 \<and> db > 0 \<and> dc > 0 then Inr () else Inl AssertFailed
                | _ \<Rightarrow> Inl OutOfRange))
      | _ \<Rightarrow> Inl OutOfRange)"

fun check_normals :: "vec3 list \<Rightarrow> vec3 list \<Rightarrow> uvec3 list \<Rightarrow> error + unit" where
  "check_normals vs ns [] = Inr ()"
| "check_normals vs ns (tri # tris) =
     (case check_normal vs ns tri of Inl e \<Rightarrow> Inl e | Inr _ \<Rightarrow> check_normals vs ns tris)"

definition WalkMesh_ctor :: "vec3 list \<Rightarrow> vec3 list \<Rightarrow> uvec3 list \<Rightarrow> error + WalkMesh" where
  "WalkMesh_ctor vs ns tris =
     (case build_next_vertex tris Map.empty of
        Inl e \<Rightarrow> Inl e
      | Inr nv \<Rightarrow>
          (case check_normals vs ns tris of
             Inl e \<Rightarrow> Inl e
           | Inr _ \<Rightarrow> Inr \<lparr>vertices = vs, normals = ns,
                           triangles = tris, next_vertex = nv\<rparr>))"

subsection \<open>nearest_walk_point\<close>

text \<open>
  The lambda \<^verbatim>\<open>check_edge\<close>; the state is \<open>(closest, closest_dis2)\<close>. When
  \<open>a = b\<close> the last branch divides \<open>0 / 0\<close>: \<open>amt\<close>, \<open>pt\<close> and \<open>dis2\<close> are NaN and
  the comparison \<^verbatim>\<open>dis2 < closest_dis2\<close> is false, so the state stays.
\<close>

definition check_edge ::
  "WalkMesh \<Rightarrow> vec3 \<Rightarrow> WalkPoint \<times> flt \<Rightarrow> 32 word \<Rightarrow> 32 word \<Rightarrow> 32 word
     \<Rightarrow> error + (WalkPoint \<times> flt)" where
  "check_edge m world_point st ai bi ci =
     (case (vertex m ai, vertex m bi) of
        (Some a, Some b) \<Rightarrow>
          let along = dot (vsub world_point a) (vsub b a);
              mx = dot (vsub b a) (vsub b a);
              cand = (if along < 0 then Some (a, Vec3 1 0 0)
                      else if along > mx then Some (b, Vec3 0 1 0)
                      else if mx = 0 then None
                      else let amt = along / mx
                           in Some (mix a b amt, Vec3 (1 - amt) amt 0))
          in (case cand of
                None \<Rightarrow> Inr st
              | Some (pt, coords) \<Rightarrow>
                  let dis2 = length2 (vsub world_point pt)
                  in if flt_less (Fin dis2) (snd st)
                     then Inr (\<lparr>indices = UVec3 ai bi ci, weights = coords\<rparr>, Fin dis2)
                     else Inr st)
      | _ \<Rightarrow> Inl OutOfRange)"

definition check_edges ::
  "WalkMesh \<Rightarrow> vec3 \<Rightarrow> WalkPoint \<times> flt \<Rightarrow> uvec3 \<Rightarrow> error + (WalkPoint \<times> flt)" where
  "check_edges m world_point st tri =
     (case check_edge m world_point st (ux tri) (uy tri) (uz tri) of
        Inl e \<Rightarrow> Inl e
      | Inr st1 \<Rightarrow>
          (case check_edge m world_point st1 (uy tri) (uz tri) (ux tri) of
             Inl e \<Rightarrow> Inl e
           | Inr st2 \<Rightarrow> check_edge m world_point st2 (uz tri) (ux tri) (uy tri)))"

text \<open>
  The body of the loop over the triangles. Non-finite \<open>coords\<close> (a triangle of area
  zero) never pass the test \<^verbatim>\<open>coords.x >= 0 && coords.y >= 0 && coords.z >= 0\<close>:
  \<open>v\<close> and \<open>w\<close> would both have to be \<open>+infinity\<close>, and then \<open>u = 1 - v - w\<close> is
  \<open>-infinity\<close>.
\<close>

definition nearest_step ::
  "WalkMesh \<Rightarrow> vec3 \<Rightarrow> WalkPoint \<times> flt \<Rightarrow> uvec3 \<Rightarrow> error + (WalkPoint \<times> flt)" where
  "nearest_step m world_point st tri =
     (case (vertex m (ux tri), vertex m (uy tri), vertex m (uz tri)) of
        (Some a, Some b, Some c) \<Rightarrow>
          (case barycentric_weights a b c world_point of
             None \<Rightarrow> check_edges m world_point st tri
           | Some coords \<Rightarrow>
               if vx coords \<ge> 0 \<and> vy coords \<ge> 0 \<and> vz coords \<ge> 0 then
                 (case to_world_point m \<lparr>indices = tri, weights = coords\<rparr> of
                    None \<Rightarrow> Inl OutOfRange
                  | Some q \<Rightarrow>
                      let dis2 = length2 (vsub world_point q)
                      in if flt_less (Fin dis2) (snd st)
                         then Inr (\<lparr>indices = tri, weights = coords\<rparr>, Fin dis2)
                         else Inr st)
               else check_edges m world_point st tri)
      | _ \<Rightarrow> Inl OutOfRange)"

fun nearest_loop ::
  "WalkMesh \<Rightarrow> vec3 \<Rightarrow> WalkPoint \<times> flt \<Rightarrow> uvec3 list \<Rightarrow> error + (WalkPoint \<times> flt)" where
  "nearest_loop m world_point st [] = Inr st"
| "nearest_loop m world_point st (tri # tris) =
     (case nearest_step m world_point st tri of
        Inl e \<Rightarrow> Inl e
      | Inr st' \<Rightarrow> nearest_loop m world_point st' tris)"

text \<open>
  \<^verbatim>\<open>WalkPoint closest;\<close> is default-constructed; the constructor is in WalkMesh.hpp,
  which is not among the sources, so the default value is the parameter \<open>closest0\<close>.
\<close>

definition nearest_walk_point :: "WalkPoint \<Rightarrow> WalkMesh \<Rightarrow> vec3 \<Rightarrow> error + WalkPoint" where
  "nearest_walk_point closest0 m world_point =
     (if triangles m = [] then Inl AssertFailed
      else
        (case nearest_loop m world_point (closest0, PInf) (triangles m) of
           Inl e \<Rightarrow> Inl e
         | Inr (closest, closest_dis2) \<Rightarrow>
             if unat (ux (indices closest)) < length (vertices m)
              \<and> unat (uy (indices closest)) < length (vertices m)
              \<and> unat (uz (indices closest)) < length (vertices m)
             then Inr closest else Inl AssertFailed))"

subsection \<open>cross_edge\<close>

text \<open>
  \<^verbatim>\<open>glm::rotation\<close> is library code, not part of this program: the parameter \<open>rot\<close>.
  It receives the two normals, \<open>None\<close> standing for the NaN vector that
  \<^verbatim>\<open>glm::normalize\<close> makes of a zero cross product.
\<close>

definition cross_edge ::
  "(vec3 option \<Rightarrow> vec3 option \<Rightarrow> quat) \<Rightarrow> WalkMesh \<Rightarrow> WalkPoint
     \<Rightarrow> error + (WalkPoint \<times> quat \<times> bool)" where
  "cross_edge rot m start =
     (if vz (weights start) \<noteq> 0 then Inl AssertFailed
      else
        let twin_triangle =
              (case next_vertex m (uy (indices start), ux (indices start)) of
                 Some f \<Rightarrow> UVec3 (uy (indices start)) (ux (indices start)) f
               | None \<Rightarrow> UVec3 (- 1) (- 1) (- 1))
        in if ux twin_triangle \<noteq> - 1 then
             (case (vertex m (ux twin_triangle), vertex m (uy twin_triangle),
                    vertex m (uz twin_triangle), to_world_point m start) of
                (Some a, Some b, Some c, Some p) \<Rightarrow>
                  (case barycentric_weights a b c p of
                     None \<Rightarrow> Inl NonFinite
                   | Some w \<Rightarrow>
                       let new_norm = normalize (cross (vsub b a) (vsub c a));
                           a0 = vertices m ! unat (ux (indices start));
                           b0 = vertices m ! unat (uy (indices start));
                           c0 = vertices m ! unat (uz (indices start));
                           old_norm = normalize (cross (vsub b0 a0) (vsub c0 a0))
                       in Inr (\<lparr>indices = twin_triangle, weights = w\<rparr>,
                               rot old_norm new_norm, True))
              | _ \<Rightarrow> Inl OutOfRange)
           else Inr (start, Quat 1 0 0 0, False))"

section \<open>The collection of walk meshes\<close>

record IndexEntry =
  name_begin :: "32 word"
  name_end :: "32 word"
  vertex_begin :: "32 word"
  vertex_end :: "32 word"
  triangle_begin :: "32 word"
  triangle_end :: "32 word"

definition quoted :: "string \<Rightarrow> string" where
  "quoted s = [CHR 0x27] @ s @ [CHR 0x27]"

text \<open>\<open>[first, last)\<close> of a buffer, as the iterator-pair constructors copy it.\<close>

definition slice :: "'a list \<Rightarrow> 32 word \<Rightarrow> 32 word \<Rightarrow> 'a list" where
  "slice xs i j = take (unat j - unat i) (drop (unat i) xs)"

text \<open>The loop that remaps the triangles of one entry, over that entry's triangles.\<close>

fun remap_triangles :: "string \<Rightarrow> IndexEntry \<Rightarrow> uvec3 list \<Rightarrow> error + uvec3 list" where
  "remap_triangles filename e [] = Inr []"
| "remap_triangles filename e (t # ts) =
     (if \<not> ((vertex_begin e \<le> ux t \<and> ux t < vertex_end e)
           \<and> (vertex_begin e \<le> uy t \<and> uy t < vertex_end e)
           \<and> (vertex_begin e \<le> uz t \<and> uz t < vertex_end e))
      then Inl (RuntimeError (''Invalid triangle in '' @ quoted filename))
      else
        (case remap_triangles filename e ts of
           Inl err \<Rightarrow> Inl err
         | Inr wm_triangles \<Rightarrow>
             Inr (UVec3 (ux t - vertex_begin e) (uy t - vertex_begin e) (uz t - vertex_begin e)
                  # wm_triangles)))"

text \<open>The body of the loop over the index; \<open>meshes\<close> is the map built so far.\<close>

definition load_entry ::
  "string \<Rightarrow> vec3 list \<Rightarrow> vec3 list \<Rightarrow> uvec3 list \<Rightarrow> string \<Rightarrow> (string \<rightharpoonup> WalkMesh)
     \<Rightarrow> IndexEntry \<Rightarrow> error + (string \<rightharpoonup> WalkMesh)" where
  "load_entry filename vs ns tris names meshes e =
     (if \<not> (name_begin e \<le> name_end e \<and> unat (name_end e) \<le> length names) then
        Inl (RuntimeError (''Invalid name indices in index of '' @ quoted filename))
      else if \<not> (vertex_begin e \<le> vertex_end e \<and> unat (vertex_end e) \<le> length vs) then
        Inl (RuntimeError (''Invalid vertex indices in index of '' @ quoted filename))
      else if \<not> (triangle_begin e \<le> triangle_end e \<and> unat (triangle_end e) \<le> length tris) then
        Inl (RuntimeError (''Invalid triangle indices in index of '' @ quoted filename))
      else
        let wm_vertices = slice vs (vertex_begin e) (vertex_end e);
            wm_normals = slice ns (vertex_begin e) (vertex_end e)
        in (case remap_triangles filename e (slice tris (triangle_begin e) (triangle_end e)) of
              Inl err \<Rightarrow> Inl err
            | Inr wm_triangles \<Rightarrow>
                let name = slice names (name_begin e) (name_end e)
                in (case WalkMesh_ctor wm_vertices wm_normals wm_triangles of
                      Inl err \<Rightarrow> Inl err
                    | Inr wm \<Rightarrow>
                        if meshes name \<noteq> None then
                          Inl (RuntimeError (''WalkMesh with duplicated name '' @ quoted name
                                             @ '' in '' @ quoted filename))
                        else Inr (meshes(name \<mapsto> wm)))))"

fun load_index ::
  "string \<Rightarrow> vec3 list \<Rightarrow> vec3 list \<Rightarrow> uvec3 list \<Rightarrow> string \<Rightarrow> (string \<rightharpoonup> WalkMesh)
     \<Rightarrow> IndexEntry list \<Rightarrow> error + (string \<rightharpoonup> WalkMesh)" where
  "load_index filename vs ns tris names meshes [] = Inr meshes"
| "load_index filename vs ns tris names meshes (e # es) =
     (case load_entry filename vs ns tris names meshes e of
        Inl err \<Rightarrow> Inl err
      | Inr meshes' \<Rightarrow> load_index filename vs ns tris names meshes' es)"

text \<open>
  The constructor \<^verbatim>\<open>WalkMeshes::WalkMeshes\<close>, from the five chunks that
  \<^verbatim>\<open>read_chunk\<close> (library code) has read from the file.
\<close>

definition WalkMeshes_ctor ::
  "string \<Rightarrow> vec3 list \<Rightarrow> vec3 list \<Rightarrow> uvec3 list \<Rightarrow> string \<Rightarrow> IndexEntry list
     \<Rightarrow> error + (string \<rightharpoonup> WalkMesh)" where
  "WalkMeshes_ctor filename vs ns tris names index =
     (if length vs \<noteq> length ns then
        Inl (RuntimeError (''Mis-matched position and normal sizes in '' @ quoted filename))
      else load_index filename vs ns tris names Map.empty index)"

section \<open>The rotation between two normals\<close>

text \<open>
  \<^verbatim>\<open>glm::rotation(orig, dest)\<close> of glm/gtx/quaternion.inl, read in the reals:
  \<^verbatim>\<open>epsilon<float>()\<close> is \<open>2 ^ -23\<close>, \<^verbatim>\<open>angleAxis(angle, axis)\<close> is the quaternion
  \<open>(cos (angle / 2), axis * sin (angle / 2))\<close>, and \<^verbatim>\<open>quat(w, x, y, z)\<close> lists the
  scalar part first. Where the axis of the second branch is the zero vector its
  normalisation is NaN; the reals have no such quaternion and \<open>Quat 0 0 0 0\<close> stands
  for it (for a unit vector \<open>orig\<close> that axis is never zero).
\<close>

definition epsilon :: real where
  "epsilon = 1 / 2 ^ 23"

definition angleAxis :: "real \<Rightarrow> vec3 \<Rightarrow> quat" where
  "angleAxis angle v =
     (let s = sin (angle * (1 / 2)); c = cos (angle * (1 / 2))
      in Quat c (vx v * s) (vy v * s) (vz v * s))"

definition glm_rotation :: "vec3 \<Rightarrow> vec3 \<Rightarrow> quat" where
  "glm_rotation orig dest =
     (let cosTheta = dot orig dest
      in if cosTheta \<ge> 1 - epsilon then Quat 1 0 0 0
         else if cosTheta < - 1 + epsilon then
           (let axis0 = cross (Vec3 0 0 1) orig;
                axis1 = (if length2 axis0 < epsilon then cross (Vec3 1 0 0) orig else axis0)
            in case normalize axis1 of
                 None \<Rightarrow> Quat 0 0 0 0
               | Some rotationAxis \<Rightarrow> angleAxis pi rotationAxis)
         else
           (let rotationAxis = cross orig dest;
                s = sqrt ((1 + cosTheta) * 2);
                invs = 1 / s
            in Quat (s * (1 / 2)) (vx rotationAxis * invs) (vy rotationAxis * invs)
                    (vz rotationAxis * invs)))"

text \<open>
  The function handed to \<open>cross_edge\<close>. A normal that is NaN (\<open>None\<close>) fails every
  comparison of \<^verbatim>\<open>glm::rotation\<close> and makes the result NaN.
\<close>

definition rotation :: "vec3 option \<Rightarrow> vec3 option \<Rightarrow> quat" where
  "rotation orig dest =
     (case (orig, dest) of (Some u, Some v) \<Rightarrow> glm_rotation u v | _ \<Rightarrow> Quat 0 0 0 0)"

text \<open>
  \<^verbatim>\<open>operator*(quat, vec3)\<close> of glm, the action of a quaternion on a vector:
  \<open>v + 2 * (cross(qv, v) * q.w + cross(qv, cross(qv, v)))\<close> with \<open>qv = (q.x, q.y, q.z)\<close>.
\<close>

definition quat_rotate :: "quat \<Rightarrow> vec3 \<Rightarrow> vec3" where
  "quat_rotate q v =
     (case q of Quat w x y z \<Rightarrow>
        let QuatVector = Vec3 x y z;
            uv = cross QuatVector v;
            uuv = cross QuatVector uv
        in vadd v (smul 2 (vadd (smul w uv) uuv)))"

section \<open>The same program in binary32\<close>

text \<open>
  The definitions above read \<^verbatim>\<open>float\<close> as the reals. The definitions of this section
  compute as the machine does: a \<^verbatim>\<open>float\<close> is an IEEE 754 binary32 value, every
  operation rounds its exact result to the nearest binary32 value (ties to even, with
  gradual underflow and overflow to infinity), and each operation of an expression is
  rounded on its own, in the order in which the source and glm write them. A finite
  value is \<open>Finite m e\<close>, the number \<open>m * 2 ^ e\<close>; the two zeros are not told apart
  (every zero divisor of this program is \<open>+0\<close>, see \<open>fdiv\<close>).
\<close>

datatype float = Finite int int | PlusInf | MinusInf | NotANumber

definition real_of_float :: "float \<Rightarrow> real" where
  "real_of_float a = (case a of Finite m e \<Rightarrow> of_int m * 2 powi e | _ \<Rightarrow> 0)"

text \<open>The number of binary digits of a positive integer.\<close>

function bits :: "int \<Rightarrow> nat" where
  "bits n = (if n \<le> 0 then 0 else Suc (bits (n div 2)))"
  by pat_completeness auto
termination
  by (relation "measure nat") auto

text \<open>The representation with an odd mantissa, so that equal numbers are equal terms.\<close>

function canon :: "int \<Rightarrow> int \<Rightarrow> float" where
  "canon m e = (if m = 0 then Finite 0 0
                else if even m then canon (m div 2) (e + 1) else Finite m e)"
  by pat_completeness auto
termination
  by (relation "measure (\<lambda>(m, e). nat \<bar>m\<bar>)") (auto elim!: evenE)

text \<open>\<open>m / 2 ^ s\<close> rounded to the nearest integer, ties to even.\<close>

definition rne :: "int \<Rightarrow> nat \<Rightarrow> int" where
  "rne m s = (let d = 2 ^ s; k = m div d; r = m mod d
              in if 2 * r < d then k
                 else if 2 * r > d then k + 1
                 else if even k then k else k + 1)"

text \<open>
  The exact number \<open>m * 2 ^ e\<close> rounded to binary32: 24 significant bits, no bit below
  \<open>2 ^ -149\<close>, and infinity when the rounded magnitude reaches \<open>2 ^ 128\<close>.
\<close>

definition round32 :: "int \<Rightarrow> int \<Rightarrow> float" where
  "round32 m e =
     (if m = 0 then Finite 0 0
      else
        let q = max (e + int (bits \<bar>m\<bar>) - 24) (- 149);
            m' = (if q \<le> e then m * 2 ^ nat (e - q) else rne m (nat (q - e)))
        in if int (bits \<bar>m'\<bar>) + q > 128 then (if 0 < m then PlusInf else MinusInf)
           else canon m' q)"

definition f32_sign :: "float \<Rightarrow> int" where
  "f32_sign a = (case a of Finite m e \<Rightarrow> sgn m | PlusInf \<Rightarrow> 1 | MinusInf \<Rightarrow> - 1
                 | NotANumber \<Rightarrow> 0)"

text \<open>The infinity of sign \<open>s\<close>; NaN for \<open>s = 0\<close> (\<open>0 * infinity\<close>, \<open>0 / 0\<close>).\<close>

definition f32_inf :: "int \<Rightarrow> float" where
  "f32_inf s = (if s = 0 then NotANumber else if 0 < s then PlusInf else MinusInf)"

definition f32_neg :: "float \<Rightarrow> float" where
  "f32_neg a = (case a of Finite m e \<Rightarrow> Finite (- m) e | PlusInf \<Rightarrow> MinusInf
                | MinusInf \<Rightarrow> PlusInf | NotANumber \<Rightarrow> NotANumber)"

definition f32_add :: "float \<Rightarrow> float \<Rightarrow> float" where
  "f32_add a b =
     (case a of
        NotANumber \<Rightarrow> NotANumber
      | Finite m1 e1 \<Rightarrow>
          (case b of
             Finite m2 e2 \<Rightarrow>
               (let q = min e1 e2 in round32 (m1 * 2 ^ nat (e1 - q) + m2 * 2 ^ nat (e2 - q)) q)
           | _ \<Rightarrow> b)
      | PlusInf \<Rightarrow> (case b of MinusInf \<Rightarrow> NotANumber | NotANumber \<Rightarrow> NotANumber | _ \<Rightarrow> PlusInf)
      | MinusInf \<Rightarrow> (case b of PlusInf \<Rightarrow> NotANumber | NotANumber \<Rightarrow> NotANumber | _ \<Rightarrow> MinusInf))"

definition f32_sub :: "float \<Rightarrow> float \<Rightarrow> float" where
  "f32_sub a b = f32_add a (f32_neg b)"

definition f32_mul :: "float \<Rightarrow> float \<Rightarrow> float" where
  "f32_mul a b =
     (case a of
        NotANumber \<Rightarrow> NotANumber
      | Finite m1 e1 \<Rightarrow>
          (case b of
             Finite m2 e2 \<Rightarrow> round32 (m1 * m2) (e1 + e2)
           | NotANumber \<Rightarrow> NotANumber
           | _ \<Rightarrow> f32_inf (sgn m1 * f32_sign b))
      | _ \<Rightarrow> (case b of NotANumber \<Rightarrow> NotANumber | _ \<Rightarrow> f32_inf (f32_sign a * f32_sign b)))"

text \<open>
  The quotient of two finite numbers, the divisor not zero: the integer quotient
  with at least 27 bits and a sticky bit for the remainder, then rounded.
\<close>

definition quotient32 :: "int \<Rightarrow> int \<Rightarrow> int \<Rightarrow> int \<Rightarrow> float" where
  "quotient32 m1 e1 m2 e2 =
     (let k = nat (max 0 (int (bits \<bar>m2\<bar>) - int (bits \<bar>m1\<bar>) + 27));
          n = \<bar>m1\<bar> * 2 ^ k;
          q = n div \<bar>m2\<bar>;
          sticky = (if n mod \<bar>m2\<bar> = 0 then 0 else 1)
      in round32 (sgn m1 * sgn m2 * (2 * q + sticky)) (e1 - e2 - int k - 1))"

definition f32_div :: "float \<Rightarrow> float \<Rightarrow> float" where
  "f32_div a b =
     (case a of
        NotANumber \<Rightarrow> NotANumber
      | Finite m1 e1 \<Rightarrow>
          (case b of
             Finite m2 e2 \<Rightarrow> (if m2 = 0 then f32_inf (sgn m1) else quotient32 m1 e1 m2 e2)
           | NotANumber \<Rightarrow> NotANumber
           | _ \<Rightarrow> Finite 0 0)
      | _ \<Rightarrow>
          (case b of
             Finite m2 e2 \<Rightarrow> f32_inf (f32_sign a * (if m2 < 0 then - 1 else 1))
           | _ \<Rightarrow> NotANumber))"

text \<open>\<^verbatim>\<open>a < b\<close>; false as soon as one side is NaN. \<^verbatim>\<open>a >= b\<close> likewise.\<close>

definition f32_less :: "float \<Rightarrow> float \<Rightarrow> bool" where
  "f32_less a b =
     (case a of
        NotANumber \<Rightarrow> False
      | PlusInf \<Rightarrow> False
      | MinusInf \<Rightarrow> (case b of Finite m2 e2 \<Rightarrow> True | PlusInf \<Rightarrow> True | _ \<Rightarrow> False)
      | Finite m1 e1 \<Rightarrow>
          (case b of
             Finite m2 e2 \<Rightarrow>
               (let q = min e1 e2 in m1 * 2 ^ nat (e1 - q) < m2 * 2 ^ nat (e2 - q))
           | PlusInf \<Rightarrow> True
           | _ \<Rightarrow> False))"

definition f32_ge :: "float \<Rightarrow> float \<Rightarrow> bool" where
  "f32_ge a b \<longleftrightarrow> a \<noteq> NotANumber \<and> b \<noteq> NotANumber \<and> \<not> f32_less a b"

datatype fvec3 = FVec3 (fx: float) (fy: float) (fz: float)

definition vadd32 :: "fvec3 \<Rightarrow> fvec3 \<Rightarrow> fvec3" where
  "vadd32 p q = FVec3 (f32_add (fx p) (fx q)) (f32_add (fy p) (fy q)) (f32_add (fz p) (fz q))"

definition vsub32 :: "fvec3 \<Rightarrow> fvec3 \<Rightarrow> fvec3" where
  "vsub32 p q = FVec3 (f32_sub (fx p) (fx q)) (f32_sub (fy p) (fy q)) (f32_sub (fz p) (fz q))"

definition smul32 :: "float \<Rightarrow> fvec3 \<Rightarrow> fvec3" where
  "smul32 k p = FVec3 (f32_mul k (fx p)) (f32_mul k (fy p)) (f32_mul k (fz p))"

text \<open>\<^verbatim>\<open>glm::dot\<close> multiplies the components and returns \<open>tmp.x + tmp.y + tmp.z\<close>.\<close>

definition dot32 :: "fvec3 \<Rightarrow> fvec3 \<Rightarrow> float" where
  "dot32 p q = f32_add (f32_add (f32_mul (fx p) (fx q)) (f32_mul (fy p) (fy q)))
                       (f32_mul (fz p) (fz q))"

definition length2_32 :: "fvec3 \<Rightarrow> float" where
  "length2_32 p = dot32 p p"

definition mix32 :: "fvec3 \<Rightarrow> fvec3 \<Rightarrow> float \<Rightarrow> fvec3" where
  "mix32 a b t = vadd32 (smul32 (f32_sub (Finite 1 0) t) a) (smul32 t b)"

record WalkPoint32 =
  indices32 :: uvec3
  weights32 :: fvec3

record WalkMesh32 =
  vertices32 :: "fvec3 list"
  normals32 :: "fvec3 list"
  triangles32 :: "uvec3 list"
  next_vertex32 :: "32 word \<times> 32 word \<rightharpoonup> 32 word"

definition vertex32 :: "WalkMesh32 \<Rightarrow> 32 word \<Rightarrow> fvec3 option" where
  "vertex32 m i =
     (if unat i < length (vertices32 m) then Some (vertices32 m ! unat i) else None)"

text \<open>
  Modelled from the spec: \<^verbatim>\<open>WalkMesh::to_world_point\<close> (WalkMesh.hpp is not among the
  sources), the weighted sum of the three vertices, summed from left to right.
\<close>

definition to_world_point32 :: "WalkMesh32 \<Rightarrow> WalkPoint32 \<Rightarrow> fvec3 option" where
  "to_world_point32 m p =
     (case (vertex32 m (ux (indices32 p)), vertex32 m (uy (indices32 p)),
            vertex32 m (uz (indices32 p))) of
        (Some a, Some b, Some c) \<Rightarrow>
          Some (vadd32 (vadd32 (smul32 (fx (weights32 p)) a) (smul32 (fy (weights32 p)) b))
                       (smul32 (fz (weights32 p)) c))
      | _ \<Rightarrow> None)"

definition barycentric_weights32 :: "fvec3 \<Rightarrow> fvec3 \<Rightarrow> fvec3 \<Rightarrow> fvec3 \<Rightarrow> fvec3" where
  "barycentric_weights32 a b c pt =
     (let v0 = vsub32 b a; v1 = vsub32 c a; v2 = vsub32 pt a;
          d00 = dot32 v0 v0;
          d01 = dot32 v0 v1;
          d11 = dot32 v1 v1;
          d20 = dot32 v2 v0;
          d21 = dot32 v2 v1;
          denom = f32_sub (f32_mul d00 d11) (f32_mul d01 d01);
          v = f32_div (f32_sub (f32_mul d11 d20) (f32_mul d01 d21)) denom;
          w = f32_div (f32_sub (f32_mul d00 d21) (f32_mul d01 d20)) denom;
          u = f32_sub (f32_sub (Finite 1 0) v) w
      in FVec3 u v w)"

definition cross_on_edge32 ::
  "float \<times> 32 word \<Rightarrow> 32 word \<Rightarrow> float \<Rightarrow> float \<Rightarrow> float \<times> 32 word" where
  "cross_on_edge32 st coord dest_w start_w =
     (if f32_less (Finite 0 0) dest_w then st
      else let time = f32_div (f32_neg start_w) (f32_sub dest_w start_w)
           in if f32_less time (fst st) then (time, coord) else st)"

definition first_cross32 :: "fvec3 \<Rightarrow> fvec3 \<Rightarrow> float \<times> 32 word" where
  "first_cross32 d s =
     (let st0 = (PlusInf, - 1);
          st1 = cross_on_edge32 st0 0 (fx d) (fx s);
          st2 = cross_on_edge32 st1 1 (fy d) (fy s)
      in cross_on_edge32 st2 2 (fz d) (fz s))"

definition dest_bary32 :: "WalkMesh32 \<Rightarrow> WalkPoint32 \<Rightarrow> fvec3 \<Rightarrow> error + fvec3" where
  "dest_bary32 m start step =
     (case (vertex32 m (ux (indices32 start)), vertex32 m (uy (indices32 start)),
            vertex32 m (uz (indices32 start)), to_world_point32 m start) of
        (Some a, Some b, Some c, Some p) \<Rightarrow> Inr (barycentric_weights32 a b c (vadd32 p step))
      | _ \<Rightarrow> Inl OutOfRange)"

definition walk_in_triangle32 ::
  "WalkMesh32 \<Rightarrow> WalkPoint32 \<Rightarrow> fvec3 \<Rightarrow> error + (WalkPoint32 \<times> float)" where
  "walk_in_triangle32 m start step =
     (case dest_bary32 m start step of
        Inl e \<Rightarrow> Inl e
      | Inr d \<Rightarrow>
          let st = first_cross32 d (weights32 start);
              min_coord = snd st;
              time = (if f32_less (fst st) (Finite 1 0) then fst st else Finite 1 0)
          in if \<not> f32_less (Finite 0 0) time then Inl AssertFailed
             else
               let w = vadd32 (weights32 start) (smul32 time (vsub32 d (weights32 start)))
               in if min_coord = 0 then
                    Inr (\<lparr>indices32 = UVec3 (uy (indices32 start)) (uz (indices32 start))
                                             (ux (indices32 start)),
                          weights32 = FVec3 (fy w) (fz w) (Finite 0 0)\<rparr>, time)
                  else if min_coord = 1 then
                    Inr (\<lparr>indices32 = UVec3 (uz (indices32 start)) (ux (indices32 start))
                                             (uy (indices32 start)),
                          weights32 = FVec3 (fz w) (fx w) (Finite 0 0)\<rparr>, time)
                  else if min_coord = 2 then
                    Inr (\<lparr>indices32 = indices32 start,
                          weights32 = FVec3 (fx w) (fy w) (Finite 0 0)\<rparr>, time)
                  else Inr (\<lparr>indices32 = indices32 start, weights32 = w\<rparr>, time))"

definition check_edge32 ::
  "WalkMesh32 \<Rightarrow> fvec3 \<Rightarrow> WalkPoint32 \<times> float \<Rightarrow> 32 word \<Rightarrow> 32 word \<Rightarrow> 32 word
     \<Rightarrow> error + (WalkPoint32 \<times> float)" where
  "check_edge32 m world_point st ai bi ci =
     (case (vertex32 m ai, vertex32 m bi) of
        (Some a, Some b) \<Rightarrow>
          let along = dot32 (vsub32 world_point a) (vsub32 b a);
              mx = dot32 (vsub32 b a) (vsub32 b a);
              cand = (if f32_less along (Finite 0 0) then (a, FVec3 (Finite 1 0) (Finite 0 0) (Finite 0 0))
                      else if f32_less mx along then (b, FVec3 (Finite 0 0) (Finite 1 0) (Finite 0 0))
                      else let amt = f32_div along mx
                           in (mix32 a b amt, FVec3 (f32_sub (Finite 1 0) amt) amt (Finite 0 0)));
              dis2 = length2_32 (vsub32 world_point (fst cand))
          in if f32_less dis2 (snd st)
             then Inr (\<lparr>indices32 = UVec3 ai bi ci, weights32 = snd cand\<rparr>, dis2)
             else Inr st
      | _ \<Rightarrow> Inl OutOfRange)"

definition check_edges32 ::
  "WalkMesh32 \<Rightarrow> fvec3 \<Rightarrow> WalkPoint32 \<times> float \<Rightarrow> uvec3 \<Rightarrow> error + (WalkPoint32 \<times> float)" where
  "check_edges32 m world_point st tri =
     (case check_edge32 m world_point st (ux tri) (uy tri) (uz tri) of
        Inl e \<Rightarrow> Inl e
      | Inr st1 \<Rightarrow>
          (case check_edge32 m world_point st1 (uy tri) (uz tri) (ux tri) of
             Inl e \<Rightarrow> Inl e
           | Inr st2 \<Rightarrow> check_edge32 m world_point st2 (uz tri) (ux tri) (uy tri)))"

definition nearest_step32 ::
  "WalkMesh32 \<Rightarrow> fvec3 \<Rightarrow> WalkPoint32 \<times> float \<Rightarrow> uvec3 \<Rightarrow> error + (WalkPoint32 \<times> float)" where
  "nearest_step32 m world_point st tri =
     (case (vertex32 m (ux tri), vertex32 m (uy tri), vertex32 m (uz tri)) of
        (Some a, Some b, Some c) \<Rightarrow>
          let coords = barycentric_weights32 a b c world_point
          in if f32_ge (fx coords) (Finite 0 0) \<and> f32_ge (fy coords) (Finite 0 0)
                \<and> f32_ge (fz coords) (Finite 0 0) then
               (case to_world_point32 m \<lparr>indices32 = tri, weights32 = coords\<rparr> of
                  None \<Rightarrow> Inl OutOfRange
                | Some q \<Rightarrow>
                    let dis2 = length2_32 (vsub32 world_point q)
                    in if f32_less dis2 (snd st)
                       then Inr (\<lparr>indices32 = tri, weights32 = coords\<rparr>, dis2)
                       else Inr st)
             else check_edges32 m world_point st tri
      | _ \<Rightarrow> Inl OutOfRange)"

fun nearest_loop32 ::
  "WalkMesh32 \<Rightarrow> fvec3 \<Rightarrow> WalkPoint32 \<times> float \<Rightarrow> uvec3 list \<Rightarrow> error + (WalkPoint32 \<times> float)" where
  "nearest_loop32 m world_point st [] = Inr st"
| "nearest_loop32 m world_point st (tri # tris) =
     (case nearest_step32 m world_point st tri of
        Inl e \<Rightarrow> Inl e
      | Inr st' \<Rightarrow> nearest_loop32 m world_point st' tris)"

definition nearest_walk_point32 ::
  "WalkPoint32 \<Rightarrow> WalkMesh32 \<Rightarrow> fvec3 \<Rightarrow> error + WalkPoint32" where
  "nearest_walk_point32 closest0 m world_point =
     (if triangles32 m = [] then Inl AssertFailed
      else
        (case nearest_loop32 m world_point (closest0, PlusInf) (triangles32 m) of
           Inl e \<Rightarrow> Inl e
         | Inr (closest, closest_dis2) \<Rightarrow>
             if unat (ux (indices32 closest)) < length (vertices32 m)
              \<and> unat (uy (indices32 closest)) < length (vertices32 m)
              \<and> unat (uz (indices32 closest)) < length (vertices32 m)
             then Inr closest else Inl AssertFailed))"

text \<open>The vector and the mesh read as reals (finite components only).\<close>

definition real_of_fvec3 :: "fvec3 \<Rightarrow> vec3" where
  "real_of_fvec3 p = Vec3 (real_of_float (fx p)) (real_of_float (fy p)) (real_of_float (fz p))"

section \<open>Vocabulary of the specification\<close>


text \<open>The spec's validity of the weights: all three are at least 0 and they sum to 1.\<close>

definition valid_weights :: "vec3 \<Rightarrow> bool" where
  "valid_weights w \<longleftrightarrow> 0 \<le> vx w \<and> 0 \<le> vy w \<and> 0 \<le> vz w \<and> vx w + vy w + vz w = 1"

text \<open>The index triple \<open>t'\<close> is a cyclic permutation of \<open>t\<close>.\<close>

definition cyc :: "uvec3 \<Rightarrow> uvec3 \<Rightarrow> bool" where
  "cyc t t' \<longleftrightarrow> t' = t \<or> t' = UVec3 (uy t) (uz t) (ux t) \<or> t' = UVec3 (uz t) (ux t) (uy t)"

text \<open>
  The spec's validity invariant of a WalkPoint on a mesh: valid weights, and an index
  triple that is a cyclic permutation of a triangle of the triangle list.
\<close>

definition valid_walkpoint :: "WalkMesh \<Rightarrow> WalkPoint \<Rightarrow> bool" where
  "valid_walkpoint m p \<longleftrightarrow>
     valid_weights (weights p) \<and> list_ex (\<lambda>tri. cyc tri (indices p)) (triangles m)"



text \<open>A triangle of nonzero area: the cross product of two of its edges is not zero.\<close>

definition nondegenerate :: "vec3 \<Rightarrow> vec3 \<Rightarrow> vec3 \<Rightarrow> bool" where
  "nondegenerate a b c \<longleftrightarrow> cross (vsub b a) (vsub c a) \<noteq> Vec3 0 0 0"

text \<open>
  What the constructor's checks leave behind (proved below): every triangle of the list
  has its indices inside the vertex buffer and nonzero area, and every entry
  \<open>(a, b) \<mapsto> c\<close> of the adjacency map comes from a triangle of the list that is
  \<open>(a, b, c)\<close> up to a cyclic permutation.
\<close>

definition tri_ok :: "WalkMesh \<Rightarrow> uvec3 \<Rightarrow> bool" where
  "tri_ok m tri \<longleftrightarrow>
     unat (ux tri) < length (vertices m) \<and> unat (uy tri) < length (vertices m)
     \<and> unat (uz tri) < length (vertices m)
     \<and> nondegenerate (vertices m ! unat (ux tri)) (vertices m ! unat (uy tri))
                      (vertices m ! unat (uz tri))"

definition mesh_ok :: "WalkMesh \<Rightarrow> bool" where
  "mesh_ok m \<longleftrightarrow>
     list_all (tri_ok m) (triangles m)
     \<and> (\<forall>a b c. next_vertex m (a, b) = Some c
                 \<longrightarrow> list_ex (\<lambda>tri. cyc tri (UVec3 a b c)) (triangles m))"

subsection \<open>The candidates of the nearest-point search, in the spec's words\<close>

text \<open>
  Section 4.2: for an edge \<open>(p, q)\<close> of a triangle with remaining vertex \<open>r\<close>, the closest
  point on the segment by clamped projection, \<open>along / max\<close> clamped to \<open>[0, 1]\<close>, with
  weights \<open>(1 - t, t, 0)\<close> in the ordering \<open>(p, q, r)\<close>; paired with its squared distance
  to the query point.
\<close>

definition clamp01 :: "real \<Rightarrow> real" where
  "clamp01 t = max 0 (min 1 t)"

definition edge_candidate ::
  "WalkMesh \<Rightarrow> vec3 \<Rightarrow> 32 word \<Rightarrow> 32 word \<Rightarrow> 32 word \<Rightarrow> real \<times> WalkPoint" where
  "edge_candidate m pt p q r =
     (let a = vertices m ! unat p; b = vertices m ! unat q;
          t = clamp01 (dot (vsub pt a) (vsub b a) / dot (vsub b a) (vsub b a))
      in (length2 (vsub pt (mix a b t)),
          \<lparr>indices = UVec3 p q r, weights = Vec3 (1 - t) t 0\<rparr>))"

text \<open>
  The candidates of one triangle: the projection onto its plane when all weights are
  at least 0, and the three edge candidates otherwise.
\<close>

definition spec_candidates :: "WalkMesh \<Rightarrow> vec3 \<Rightarrow> uvec3 \<Rightarrow> (real \<times> WalkPoint) list" where
  "spec_candidates m pt tri =
     (let a = vertices m ! unat (ux tri); b = vertices m ! unat (uy tri);
          c = vertices m ! unat (uz tri);
          edges = [edge_candidate m pt (ux tri) (uy tri) (uz tri),
                   edge_candidate m pt (uy tri) (uz tri) (ux tri),
                   edge_candidate m pt (uz tri) (ux tri) (uy tri)]
      in (case barycentric_weights a b c pt of
            None \<Rightarrow> edges
          | Some w \<Rightarrow>
              if 0 \<le> vx w \<and> 0 \<le> vy w \<and> 0 \<le> vz w then
                [(length2 (vsub pt (vadd (vadd (smul (vx w) a) (smul (vy w) b)) (smul (vz w) c))),
                  \<lparr>indices = tri, weights = w\<rparr>)]
              else edges))"

text \<open>All candidates, in the order of the iteration.\<close>

definition all_candidates :: "WalkMesh \<Rightarrow> vec3 \<Rightarrow> (real \<times> WalkPoint) list" where
  "all_candidates m pt = concat (map (spec_candidates m pt) (triangles m))"

text \<open>
  \<open>x\<close> is the first entry of \<open>cs\<close> that achieves the minimal distance: every entry
  before it is strictly farther, no entry after it is nearer.
\<close>

definition first_min :: "(real \<times> 'a) list \<Rightarrow> real \<times> 'a \<Rightarrow> bool" where
  "first_min cs x \<longleftrightarrow>
     (\<exists>pre post. cs = pre @ x # post
        \<and> (\<forall>y\<in>set pre. fst x < fst y) \<and> (\<forall>y\<in>set post. fst x \<le> fst y))"

text \<open>
  The update \<^verbatim>\<open>if (dis2 < closest_dis2) { ... }\<close> of the source, run over a list of
  candidates.
\<close>

fun scan :: "WalkPoint \<times> flt \<Rightarrow> (real \<times> WalkPoint) list \<Rightarrow> WalkPoint \<times> flt" where
  "scan st [] = st"
| "scan st (c # cs) = scan (if flt_less (Fin (fst c)) (snd st) then (snd c, Fin (fst c)) else st) cs"

subsection \<open>Index entries\<close>

text \<open>Two half-open ranges \<open>[b1, e1)\<close> and \<open>[b2, e2)\<close> have an element in common.\<close>

definition ranges_meet :: "32 word \<Rightarrow> 32 word \<Rightarrow> 32 word \<Rightarrow> 32 word \<Rightarrow> bool" where
  "ranges_meet b1 e1 b2 e2 \<longleftrightarrow> max b1 b2 < min e1 e2"

definition overlapping :: "IndexEntry \<Rightarrow> IndexEntry \<Rightarrow> bool" where
  "overlapping e1 e2 \<longleftrightarrow>
     ranges_meet (vertex_begin e1) (vertex_end e1) (vertex_begin e2) (vertex_end e2)
     \<or> ranges_meet (triangle_begin e1) (triangle_end e1) (triangle_begin e2) (triangle_end e2)"

text \<open>
  Section 4.5: the ranges of an entry are well-ordered and within their buffers, and
  every triangle of its triangle range refers to vertices of its vertex range only.
\<close>

definition entry_ok :: "vec3 list \<Rightarrow> uvec3 list \<Rightarrow> string \<Rightarrow> IndexEntry \<Rightarrow> bool" where
  "entry_ok vs tris names e \<longleftrightarrow>
     name_begin e \<le> name_end e \<and> unat (name_end e) \<le> length names
     \<and> vertex_begin e \<le> vertex_end e \<and> unat (vertex_end e) \<le> length vs
     \<and> triangle_begin e \<le> triangle_end e \<and> unat (triangle_end e) \<le> length tris
     \<and> list_all (\<lambda>t. vertex_begin e \<le> ux t \<and> ux t < vertex_end e
                    \<and> vertex_begin e \<le> uy t \<and> uy t < vertex_end e
                    \<and> vertex_begin e \<le> uz t \<and> uz t < vertex_end e)
                (slice tris (triangle_begin e) (triangle_end e))"

definition entry_name :: "string \<Rightarrow> IndexEntry \<Rightarrow> string" where
  "entry_name names e = slice names (name_begin e) (name_end e)"

subsection \<open>Two small meshes\<close>

text \<open>
  The single triangle of the spec's end-to-end scenario, and a unit square cut into
  two triangles along the edge between vertices 1 and 2.
\<close>

definition unit_mesh :: WalkMesh where
  "unit_mesh = \<lparr>vertices = [Vec3 0 0 0, Vec3 1 0 0, Vec3 0 1 0],
                 normals = [Vec3 0 0 1, Vec3 0 0 1, Vec3 0 0 1],
                 triangles = [UVec3 0 1 2],
                 next_vertex = [(0, 1) \<mapsto> 2, (1, 2) \<mapsto> 0, (2, 0) \<mapsto> 1]\<rparr>"

definition square_mesh :: WalkMesh where
  "square_mesh = \<lparr>vertices = [Vec3 0 0 0, Vec3 1 0 0, Vec3 0 1 0, Vec3 1 1 0],
                   normals = [Vec3 0 0 1, Vec3 0 0 1, Vec3 0 0 1, Vec3 0 0 1],
                   triangles = [UVec3 0 1 2, UVec3 1 3 2],
                   next_vertex = [(0, 1) \<mapsto> 2, (1, 2) \<mapsto> 0, (2, 0) \<mapsto> 1,
                                  (1, 3) \<mapsto> 2, (3, 2) \<mapsto> 1, (2, 1) \<mapsto> 3]\<rparr>"

definition unit_mesh32 :: WalkMesh32 where
  "unit_mesh32 = \<lparr>vertices32 = [FVec3 (Finite 0 0) (Finite 0 0) (Finite 0 0),
                                  FVec3 (Finite 1 0) (Finite 0 0) (Finite 0 0),
                                  FVec3 (Finite 0 0) (Finite 1 0) (Finite 0 0)],
                   normals32 = [FVec3 (Finite 0 0) (Finite 0 0) (Finite 1 0),
                                 FVec3 (Finite 0 0) (Finite 0 0) (Finite 1 0),
                                 FVec3 (Finite 0 0) (Finite 0 0) (Finite 1 0)],
                   triangles32 = [UVec3 0 1 2],
                   next_vertex32 = [(0, 1) \<mapsto> 2, (1, 2) \<mapsto> 0, (2, 0) \<mapsto> 1]\<rparr>"

text \<open>
  A triangle whose first vertex has the second coordinate \<^verbatim>\<open>0.1f\<close>, that is
  \<open>13421773 / 2 ^ 27\<close>.
\<close>

definition tilt_mesh32 :: WalkMesh32 where
  "tilt_mesh32 = \<lparr>vertices32 = [FVec3 (Finite 0 0) (Finite 13421773 (- 27)) (Finite 0 0),
                                  FVec3 (Finite 1 0) (Finite 1 1) (Finite 0 0),
                                  FVec3 (Finite 0 0) (Finite 1 0) (Finite 0 0)],
                   normals32 = [FVec3 (Finite 0 0) (Finite 0 0) (Finite 1 0),
                                 FVec3 (Finite 0 0) (Finite 0 0) (Finite 1 0),
                                 FVec3 (Finite 0 0) (Finite 0 0) (Finite 1 0)],
                   triangles32 = [UVec3 0 1 2],
                   next_vertex32 = [(0, 1) \<mapsto> 2, (1, 2) \<mapsto> 0, (2, 0) \<mapsto> 1]\<rparr>"

text \<open>
  Two triangles along the edge between vertices 0 and 1 whose normals, \<open>(0, 0, 1)\<close>
  and \<open>(0, 8192, 16777215) / 16777217\<close>, differ by less than \<open>epsilon\<close> in their dot
  product.
\<close>

definition fold_mesh :: WalkMesh where
  "fold_mesh = \<lparr>vertices = [Vec3 0 0 0, Vec3 1 0 0, Vec3 0 1 0, Vec3 1 (- 16777215) 8192],
                 normals = [Vec3 0 0 1, Vec3 0 0 1, Vec3 0 0 1, Vec3 0 0 1],
                 triangles = [UVec3 0 1 2, UVec3 1 0 3],
                 next_vertex = [(0, 1) \<mapsto> 2, (1, 2) \<mapsto> 0, (2, 0) \<mapsto> 1,
                                (1, 0) \<mapsto> 3, (0, 3) \<mapsto> 1, (3, 1) \<mapsto> 0]\<rparr>"

section \<open>Vector algebra\<close>

lemmas vec_defs = vadd_def vsub_def smul_def dot_def cross_def length2_def mix_def

lemma vec3_eq_iff: "p = q \<longleftrightarrow> vx p = vx q \<and> vy p = vy q \<and> vz p = vz q"
  by (cases p; cases q) simp

lemma dot_commute: "dot p q = dot q p"
  by (simp add: dot_def mult.commute)

lemma dot_lincomb: "dot (vadd (smul v p) (smul w q)) r = v * dot p r + w * dot q r"
  by (simp add: vec_defs algebra_simps)

lemma dot_self_zero: "dot p p = 0 \<longleftrightarrow> p = Vec3 0 0 0"
proof -
  have "vx p * vx p + vy p * vy p + vz p * vz p = 0 \<longleftrightarrow> vx p = 0 \<and> vy p = 0 \<and> vz p = 0"
    by (metis (no_types, opaque_lifting) add_nonneg_eq_0_iff zero_le_square mult_eq_0_iff
        add_nonneg_nonneg add.right_neutral)
  then show ?thesis by (simp add: dot_def vec3_eq_iff)
qed

lemma lagrange: "dot (cross p q) (cross p q) = dot p p * dot q q - dot p q * dot p q"
  by (simp add: dot_def cross_def algebra_simps)

lemma denom_nonzero:
  "nondegenerate a b c \<longleftrightarrow>
     dot (vsub b a) (vsub b a) * dot (vsub c a) (vsub c a)
       - dot (vsub b a) (vsub c a) * dot (vsub b a) (vsub c a) \<noteq> 0"
  unfolding nondegenerate_def lagrange [symmetric] dot_self_zero ..

lemma affine_offset:
  assumes "u + v + w = 1"
  shows "vsub (vadd (vadd (smul u a) (smul v b)) (smul w c)) a
           = vadd (smul v (vsub b a)) (smul w (vsub c a))"
proof -
  have u: "u = 1 - v - w" using assms by simp
  show ?thesis unfolding u by (simp add: vadd_def vsub_def smul_def algebra_simps)
qed


text \<open>
  The round trip of section 8 of the spec: on a triangle of nonzero area the weights of
  an affine combination of the corners are its coefficients.
\<close>

lemma barycentric_roundtrip:
  assumes nd: "nondegenerate a b c" and sum: "u + v + w = 1"
  shows "barycentric_weights a b c (vadd (vadd (smul u a) (smul v b)) (smul w c))
           = Some (Vec3 u v w)"
proof -
  define d00 where "d00 = dot (vsub b a) (vsub b a)"
  define d01 where "d01 = dot (vsub b a) (vsub c a)"
  define d11 where "d11 = dot (vsub c a) (vsub c a)"
  have den: "d00 * d11 - d01 * d01 \<noteq> 0"
    using nd unfolding denom_nonzero d00_def d01_def d11_def .
  have d10: "dot (vsub c a) (vsub b a) = d01"
    by (simp add: d01_def dot_commute)
  have d20: "dot (vadd (smul v (vsub b a)) (smul w (vsub c a))) (vsub b a) = v * d00 + w * d01"
    by (simp add: dot_lincomb d00_def d10)
  have d21: "dot (vadd (smul v (vsub b a)) (smul w (vsub c a))) (vsub c a) = v * d01 + w * d11"
    by (simp add: dot_lincomb d01_def d11_def)
  have v: "(d11 * (v * d00 + w * d01) - d01 * (v * d01 + w * d11)) / (d00 * d11 - d01 * d01) = v"
    using den by (simp add: field_simps)
  have w: "(d00 * (v * d01 + w * d11) - d01 * (v * d00 + w * d01)) / (d00 * d11 - d01 * d01) = w"
    using den by (simp add: field_simps)
  have u: "1 - v - w = u" using sum by simp
  show ?thesis
    unfolding barycentric_weights_def Let_def affine_offset [OF sum] d20 d21
    unfolding d00_def [symmetric] d01_def [symmetric] d11_def [symmetric]
    using den by (simp add: v w u)
qed

section \<open>The two meshes are what the constructor builds\<close>

lemma unit_mesh_ctor:
  "WalkMesh_ctor [Vec3 0 0 0, Vec3 1 0 0, Vec3 0 1 0] [Vec3 0 0 1, Vec3 0 0 1, Vec3 0 0 1]
     [UVec3 0 1 2] = Inr unit_mesh"
  by (simp add: WalkMesh_ctor_def do_next_def check_normal_def nth_opt_def normalize_def
      vec_defs unit_mesh_def)

lemma square_mesh_ctor:
  "WalkMesh_ctor [Vec3 0 0 0, Vec3 1 0 0, Vec3 0 1 0, Vec3 1 1 0]
     [Vec3 0 0 1, Vec3 0 0 1, Vec3 0 0 1, Vec3 0 0 1]
     [UVec3 0 1 2, UVec3 1 3 2] = Inr square_mesh"
  by (simp add: WalkMesh_ctor_def do_next_def check_normal_def nth_opt_def normalize_def
      vec_defs square_mesh_def)

section \<open>walk_in_triangle\<close>

lemmas walk_eval = walk_in_triangle_def dest_bary_def first_cross_def cross_on_edge_def fdiv_def
  min1_def vertex_def to_world_point_def barycentric_weights_def vec_defs Let_def

subsection \<open>One call of cross_on_edge\<close>

lemma cross_on_edge_pos: "0 < d \<Longrightarrow> cross_on_edge st k d s = st"
  by (simp add: cross_on_edge_def)

lemma cross_on_edge_same: "d \<le> 0 \<Longrightarrow> 0 \<le> s \<Longrightarrow> \<not> d < s \<Longrightarrow> cross_on_edge st k d s = st"
  by (cases "s = 0") (auto simp: cross_on_edge_def fdiv_def)

lemma cross_on_edge_skip:
  "0 \<le> s \<Longrightarrow> \<not> (d \<le> 0 \<and> d < s) \<Longrightarrow> cross_on_edge st k d s = st"
  by (cases "0 < d") (simp_all add: cross_on_edge_pos cross_on_edge_same)



lemma min1_Fin_le: "t \<le> 1 \<Longrightarrow> min1 (Fin t) = Fin t"
  by (simp add: min1_def)


lemma cross_on_edge_time:
  assumes "0 \<le> s"
  shows "fst (cross_on_edge st k d s) = fst st
         \<or> (\<exists>t. fst (cross_on_edge st k d s) = Fin t \<and> 0 \<le> t \<and> (0 < s \<longrightarrow> 0 < t))"
proof (cases "d \<le> 0 \<and> d < s")
  case False
  then show ?thesis using assms by (simp add: cross_on_edge_skip)
next
  case True
  then have ne: "d - s \<noteq> 0" by simp
  have eq: "- s / (d - s) = s / (s - d)"
    by (metis minus_diff_eq minus_divide_divide)
  have "0 < s - d" using True by simp
  then have t: "0 \<le> - s / (d - s)" "0 < s \<longrightarrow> 0 < - s / (d - s)"
    unfolding eq using assms by simp_all
  have "cross_on_edge st k d s = (Fin (- s / (d - s)), k) \<or> cross_on_edge st k d s = st"
    using True ne by (simp add: cross_on_edge_def fdiv_def Let_def)
  then show ?thesis
  proof
    assume "cross_on_edge st k d s = (Fin (- s / (d - s)), k)"
    then have "fst (cross_on_edge st k d s) = Fin (- s / (d - s))" by simp
    with t show ?thesis by blast
  next
    assume "cross_on_edge st k d s = st"
    then show ?thesis by simp
  qed
qed

lemma first_cross_time:
  assumes "0 \<le> vx s" "0 \<le> vy s" "0 \<le> vz s"
  shows "fst (first_cross d s) = PInf
         \<or> (\<exists>t. fst (first_cross d s) = Fin t \<and> 0 \<le> t
                \<and> (0 < vx s \<and> 0 < vy s \<and> 0 < vz s \<longrightarrow> 0 < t))"
proof -
  define st1 where "st1 = cross_on_edge (PInf, - 1) 0 (vx d) (vx s)"
  define st2 where "st2 = cross_on_edge st1 1 (vy d) (vy s)"
  have fc: "first_cross d s = cross_on_edge st2 2 (vz d) (vz s)"
    by (simp add: first_cross_def st1_def st2_def)
  have 1: "fst st1 = PInf \<or> (\<exists>t. fst st1 = Fin t \<and> 0 \<le> t \<and> (0 < vx s \<longrightarrow> 0 < t))"
    using cross_on_edge_time [OF assms(1), of "(PInf, - 1)" 0 "vx d"] by (simp add: st1_def)
  have 2: "fst st2 = PInf
           \<or> (\<exists>t. fst st2 = Fin t \<and> 0 \<le> t \<and> (0 < vx s \<and> 0 < vy s \<longrightarrow> 0 < t))"
    using cross_on_edge_time [OF assms(2), of st1 1 "vy d"] 1 unfolding st2_def by auto
  show ?thesis
    using cross_on_edge_time [OF assms(3), of st2 2 "vz d"] 2 unfolding fc by auto
qed


subsection \<open>A step that leaves through one edge\<close>




subsection \<open>A step that stays inside\<close>



subsection \<open>The zero step\<close>



subsection \<open>The sign of the crossing time\<close>




subsection \<open>The divisor of the crossing time\<close>

text \<open>
  C10 (as amended). In \<open>cross_on_edge\<close>, for a start weight \<open>s \<ge> 0\<close> and a destination
  weight \<open>d \<le> 0\<close> (the case the guard lets through), the divisor \<open>d - s\<close> is zero
  exactly when \<open>s\<close> and \<open>d\<close> are both 0. Otherwise the quotient is the real number
  \<open>-s / (d - s)\<close>. When both are 0 the division is not guarded: it is \<open>0 / 0\<close>, the
  result is NaN, the comparison with \<open>min_time\<close> is false and the call leaves
  \<open>min_time\<close> and \<open>min_coord\<close> as they were.
\<close>

theorem crossing_division:
  assumes "0 \<le> s" "d \<le> 0"
  shows "(d - s = 0 \<longleftrightarrow> s = 0 \<and> d = 0)
         \<and> (d - s \<noteq> 0 \<longrightarrow> fdiv (- s) (d - s) = Fin (- s / (d - s)))
         \<and> (d - s = 0 \<longrightarrow> fdiv (- s) (d - s) = NaN \<and> cross_on_edge st k d s = st)"
  using assms by (auto simp: fdiv_def cross_on_edge_def)

theorem crossing_division_witness:
  "(0::real) \<le> 1/2 \<and> (- 1::real) \<le> 0
   \<and> fdiv (- (1/2)) (- 1 - 1/2) = Fin (1/3)
   \<and> fdiv (- 0) (0 - 0) = NaN \<and> cross_on_edge (PInf, - 1) 2 0 0 = (PInf, - 1)"
  using crossing_division [of "1/2" "- 1" "(PInf, - 1)" 2] crossing_division [of 0 0 "(PInf, - 1)" 2]
  by simp

text \<open>
  A point on the edge opposite to vertex 2 that moves along this edge: its third
  weight is 0 before and after, the guard \<^verbatim>\<open>dest_w > 0\<close> does not return, and the
  divisor is 0.
\<close>

theorem crossing_division_counterexample:
  "valid_weights (Vec3 (1/2) (1/2) 0)
   \<and> dest_bary unit_mesh \<lparr>indices = UVec3 0 1 2, weights = Vec3 (1/2) (1/2) 0\<rparr> (Vec3 (1/4) 0 0)
       = Inr (Vec3 (1/4) (3/4) 0)
   \<and> \<not> vz (Vec3 (1/4) (3/4) 0) > 0
   \<and> vz (Vec3 (1/4) (3/4) 0) - vz (Vec3 (1/2) (1/2) 0) = 0
   \<and> fdiv (- vz (Vec3 (1/2) (1/2) 0)) (vz (Vec3 (1/4) (3/4) 0) - vz (Vec3 (1/2) (1/2) 0)) = NaN"
  by (simp add: walk_eval unit_mesh_def valid_weights_def)

section \<open>cross_edge\<close>

text \<open>
  C4. When the third weight of \<open>start\<close> is 0 and the reverse directed edge
  \<open>(indices.y, indices.x)\<close> has no entry in the adjacency map, \<open>cross_edge\<close> returns
  \<open>false\<close>, \<open>start\<close> itself as the end point, and the identity quaternion.
\<close>

theorem cross_edge_boundary:
  assumes "vz (weights start) = 0"
    and "next_vertex m (uy (indices start), ux (indices start)) = None"
  shows "cross_edge rot m start = Inr (start, Quat 1 0 0 0, False)"
  using assms by (simp add: cross_edge_def)

theorem cross_edge_boundary_witness:
  "vz (weights \<lparr>indices = UVec3 0 1 2, weights = Vec3 (1/2) (1/2) 0\<rparr>) = 0
   \<and> next_vertex unit_mesh (uy (indices \<lparr>indices = UVec3 0 1 2, weights = Vec3 (1/2) (1/2) 0\<rparr>),
                           ux (indices \<lparr>indices = UVec3 0 1 2, weights = Vec3 (1/2) (1/2) 0\<rparr>)) = None
   \<and> cross_edge (\<lambda>_ _. Quat 0 1 0 0) unit_mesh \<lparr>indices = UVec3 0 1 2, weights = Vec3 (1/2) (1/2) 0\<rparr>
       = Inr (\<lparr>indices = UVec3 0 1 2, weights = Vec3 (1/2) (1/2) 0\<rparr>, Quat 1 0 0 0, False)"
  using cross_edge_boundary [of "\<lparr>indices = UVec3 0 1 2, weights = Vec3 (1/2) (1/2) 0\<rparr>" unit_mesh
      "\<lambda>_ _. Quat 0 1 0 0"]
  by (simp add: unit_mesh_def)

section \<open>What the constructor guarantees\<close>

lemma do_next_Inr: "do_next nv a b c = Inr nv' \<Longrightarrow> nv' = nv((a, b) \<mapsto> c)"
  by (simp add: do_next_def split: if_splits)

lemma build_next_vertex_sound:
  "build_next_vertex tris nv0 = Inr nv \<Longrightarrow> nv (a, b) = Some c
     \<Longrightarrow> nv0 (a, b) = Some c \<or> list_ex (\<lambda>tri. cyc tri (UVec3 a b c)) tris"
proof (induction tris arbitrary: nv0)
  case Nil
  then show ?case by simp
next
  case (Cons tri tris)
  from Cons.prems(1) obtain nv1 nv2 nv3 where
    n1: "do_next nv0 (ux tri) (uy tri) (uz tri) = Inr nv1" and
    n2: "do_next nv1 (uy tri) (uz tri) (ux tri) = Inr nv2" and
    n3: "do_next nv2 (uz tri) (ux tri) (uy tri) = Inr nv3" and
    rest: "build_next_vertex tris nv3 = Inr nv"
    by (auto split: sum.splits)
  have nv3: "nv3 = nv0((ux tri, uy tri) \<mapsto> uz tri, (uy tri, uz tri) \<mapsto> ux tri,
                       (uz tri, ux tri) \<mapsto> uy tri)"
    using do_next_Inr [OF n1] do_next_Inr [OF n2] do_next_Inr [OF n3] by simp
  from Cons.IH [OF rest Cons.prems(2)]
  show ?case
  proof
    assume "nv3 (a, b) = Some c"
    then have "nv0 (a, b) = Some c \<or> cyc tri (UVec3 a b c)"
      unfolding nv3 by (cases tri) (auto simp: cyc_def split: if_splits)
    then show ?thesis by auto
  next
    assume "list_ex (\<lambda>tri. cyc tri (UVec3 a b c)) tris"
    then show ?thesis by simp
  qed
qed

lemma normalize_Some: "normalize v = Some n \<Longrightarrow> v \<noteq> Vec3 0 0 0"
  by (auto simp: normalize_def dot_def split: if_splits)

lemma check_normal_ok:
  assumes "check_normal vs ns tri = Inr u"
  shows "unat (ux tri) < length vs \<and> unat (uy tri) < length vs \<and> unat (uz tri) < length vs
         \<and> nondegenerate (vs ! unat (ux tri)) (vs ! unat (uy tri)) (vs ! unat (uz tri))"
  using assms
  by (auto simp: check_normal_def nth_opt_def nondegenerate_def
      split: option.splits if_splits dest: normalize_Some)

lemma check_normals_ok:
  "check_normals vs ns tris = Inr u \<Longrightarrow>
     list_all (\<lambda>tri. unat (ux tri) < length vs \<and> unat (uy tri) < length vs
                    \<and> unat (uz tri) < length vs
                    \<and> nondegenerate (vs ! unat (ux tri)) (vs ! unat (uy tri))
                                     (vs ! unat (uz tri))) tris"
proof (induction tris)
  case Nil
  then show ?case by simp
next
  case (Cons tri tris)
  from Cons.prems obtain u' where 1: "check_normal vs ns tri = Inr u'"
    and 2: "check_normals vs ns tris = Inr u"
    by (auto split: sum.splits)
  show ?case using check_normal_ok [OF 1] Cons.IH [OF 2] by simp
qed

lemma WalkMesh_ctor_fields:
  assumes "WalkMesh_ctor vs ns tris = Inr m"
  shows "vertices m = vs" "normals m = ns" "triangles m = tris"
  using assms by (auto simp: WalkMesh_ctor_def split: sum.splits)

lemma WalkMesh_ctor_mesh_ok:
  assumes "WalkMesh_ctor vs ns tris = Inr m"
  shows "mesh_ok m"
proof -
  from assms obtain nv u where
    nv: "build_next_vertex tris Map.empty = Inr nv" and
    cn: "check_normals vs ns tris = Inr u" and
    m: "m = \<lparr>vertices = vs, normals = ns, triangles = tris, next_vertex = nv\<rparr>"
    by (auto simp: WalkMesh_ctor_def split: sum.splits)
  have 1: "list_all (tri_ok m) (triangles m)"
    using check_normals_ok [OF cn] by (simp add: m tri_ok_def [abs_def])
  have 2: "list_ex (\<lambda>tri. cyc tri (UVec3 a b c)) (triangles m)"
    if "next_vertex m (a, b) = Some c" for a b c
    using build_next_vertex_sound [OF nv, of a b c] that by (simp add: m)
  show ?thesis unfolding mesh_ok_def using 1 2 by blast
qed


section \<open>nearest_walk_point\<close>

text \<open>
  On a mesh that satisfies \<open>mesh_ok\<close> the loop of \<open>nearest_walk_point\<close> is \<open>scan\<close> over the
  spec's list of candidates, and \<open>scan\<close> from \<open>+infinity\<close> ends at the first minimum.
\<close>

lemma vsub_eq_zero: "vsub b a = Vec3 0 0 0 \<longleftrightarrow> b = a"
  by (auto simp: vsub_def vec3_eq_iff)

lemma nondegenerate_distinct:
  assumes "nondegenerate a b c"
  shows "a \<noteq> b" "b \<noteq> c" "c \<noteq> a"
  using assms by (auto simp: nondegenerate_def vec_defs)

lemma nondegenerate_rotate: "nondegenerate a b c \<Longrightarrow> nondegenerate b c a"
proof -
  have "cross (vsub c b) (vsub a b) = cross (vsub b a) (vsub c a)"
    by (simp add: vec_defs algebra_simps)
  then show "nondegenerate a b c \<Longrightarrow> nondegenerate b c a"
    by (simp add: nondegenerate_def)
qed

lemma mix_ends: "mix a b 0 = a" "mix a b 1 = b"
  by (simp_all add: vec_defs vec3_eq_iff)

lemma clamp01_cases:
  "t < 0 \<Longrightarrow> clamp01 t = 0" "1 < t \<Longrightarrow> clamp01 t = 1" "0 \<le> t \<Longrightarrow> t \<le> 1 \<Longrightarrow> clamp01 t = t"
  by (simp_all add: clamp01_def)

lemma clamp01_range: "0 \<le> clamp01 t" "clamp01 t \<le> 1"
  by (simp_all add: clamp01_def)

lemma check_edge_scan:
  assumes ai: "unat ai < length (vertices m)" and bi: "unat bi < length (vertices m)"
    and ne: "vertices m ! unat ai \<noteq> vertices m ! unat bi"
  shows "check_edge m pt st ai bi ci = Inr (scan st [edge_candidate m pt ai bi ci])"
proof -
  let ?a = "vertices m ! unat ai" and ?b = "vertices m ! unat bi"
  let ?along = "dot (vsub pt ?a) (vsub ?b ?a)" and ?mx = "dot (vsub ?b ?a) (vsub ?b ?a)"
  have "?mx \<noteq> 0" using ne by (simp add: dot_self_zero vsub_eq_zero)
  moreover have "0 \<le> ?mx" by (simp add: dot_def)
  ultimately have mx: "0 < ?mx" by simp
  consider (lo) "?along < 0" | (hi) "\<not> ?along < 0" "?along > ?mx"
    | (mid) "\<not> ?along < 0" "\<not> ?along > ?mx" by blast
  then show ?thesis
  proof cases
    case lo
    then have "?along / ?mx < 0" using mx by (simp add: divide_neg_pos)
    then have c: "clamp01 (?along / ?mx) = 0" by (rule clamp01_cases)
    show ?thesis using lo
      by (simp add: check_edge_def vertex_def ai bi edge_candidate_def Let_def c mix_ends)
  next
    case hi
    then have "1 < ?along / ?mx" using mx by simp
    then have c: "clamp01 (?along / ?mx) = 1" by (rule clamp01_cases)
    show ?thesis using hi
      by (simp add: check_edge_def vertex_def ai bi edge_candidate_def Let_def c mix_ends)
  next
    case mid
    then have "0 \<le> ?along / ?mx" "?along / ?mx \<le> 1" using mx by simp_all
    then have c: "clamp01 (?along / ?mx) = ?along / ?mx" by (rule clamp01_cases)
    show ?thesis using mid mx
      by (simp add: check_edge_def vertex_def ai bi edge_candidate_def Let_def c)
  qed
qed

lemma scan_append: "scan st (xs @ ys) = scan (scan st xs) ys"
  by (induction xs arbitrary: st) simp_all

lemma scan_three: "scan st [e1, e2, e3] = scan (scan (scan st [e1]) [e2]) [e3]"
  by simp

lemma check_edges_scan:
  assumes "tri_ok m tri"
  shows "check_edges m pt st tri
           = Inr (scan st [edge_candidate m pt (ux tri) (uy tri) (uz tri),
                           edge_candidate m pt (uy tri) (uz tri) (ux tri),
                           edge_candidate m pt (uz tri) (ux tri) (uy tri)])"
proof -
  from assms have r: "unat (ux tri) < length (vertices m)" "unat (uy tri) < length (vertices m)"
    "unat (uz tri) < length (vertices m)"
    and nd: "nondegenerate (vertices m ! unat (ux tri)) (vertices m ! unat (uy tri))
               (vertices m ! unat (uz tri))"
    by (simp_all add: tri_ok_def)
  note d = nondegenerate_distinct [OF nd]
  show ?thesis
    unfolding check_edges_def scan_three
    by (simp only: check_edge_scan [OF r(1) r(2) d(1)] check_edge_scan [OF r(2) r(3) d(2)]
        check_edge_scan [OF r(3) r(1) d(3)] sum.case)
qed

lemma nearest_step_scan:
  assumes "tri_ok m tri"
  shows "nearest_step m pt st tri = Inr (scan st (spec_candidates m pt tri))"
proof -
  from assms have r: "unat (ux tri) < length (vertices m)" "unat (uy tri) < length (vertices m)"
    "unat (uz tri) < length (vertices m)"
    by (simp_all add: tri_ok_def)
  show ?thesis
    by (simp add: nearest_step_def spec_candidates_def vertex_def r check_edges_scan [OF assms]
        to_world_point_def Let_def split: option.splits)
qed

lemma nearest_loop_scan:
  "list_all (tri_ok m) ts \<Longrightarrow>
     nearest_loop m pt st ts = Inr (scan st (concat (map (spec_candidates m pt) ts)))"
  by (induction ts arbitrary: st) (simp_all add: nearest_step_scan scan_append)

lemma scan_first_min:
  "\<exists>x. first_min ((d, p) # cs) x \<and> scan (p, Fin d) cs = (snd x, Fin (fst x))"
proof (induction cs arbitrary: d p)
  case Nil
  have "first_min [(d, p)] (d, p)"
    unfolding first_min_def by (rule exI [of _ "[]"], rule exI [of _ "[]"]) simp
  then show ?case by auto
next
  case (Cons c cs)
  obtain d1 p1 where c: "c = (d1, p1)" by (cases c)
  show ?case
  proof (cases "d1 < d")
    case True
    from Cons.IH [of d1 p1] obtain x pre post where
      sc: "scan (p1, Fin d1) cs = (snd x, Fin (fst x))" and
      dec: "(d1, p1) # cs = pre @ x # post" and
      pre: "\<forall>y\<in>set pre. fst x < fst y" and post: "\<forall>y\<in>set post. fst x \<le> fst y"
      unfolding first_min_def by blast
    have "(d1, p1) \<in> set (pre @ x # post)" using dec by (metis list.set_intros(1))
    then have "fst x \<le> d1" using pre post by auto
    then have lt: "fst x < d" using True by simp
    have "first_min ((d, p) # c # cs) x"
      unfolding first_min_def c
      by (rule exI [of _ "(d, p) # pre"], rule exI [of _ post]) (use dec pre post lt in simp)
    then show ?thesis using sc True by (auto simp: c)
  next
    case False
    from Cons.IH [of d p] obtain x pre post where
      sc: "scan (p, Fin d) cs = (snd x, Fin (fst x))" and
      dec: "(d, p) # cs = pre @ x # post" and
      pre: "\<forall>y\<in>set pre. fst x < fst y" and post: "\<forall>y\<in>set post. fst x \<le> fst y"
      unfolding first_min_def by blast
    have "first_min ((d, p) # c # cs) x"
    proof (cases pre)
      case Nil
      then have x: "x = (d, p)" and cs: "cs = post" using dec by simp_all
      show ?thesis
        unfolding first_min_def c
        by (rule exI [of _ "[]"], rule exI [of _ "(d1, p1) # post"])
          (use x cs post False in simp)
    next
      case (Cons y pre')
      then have y: "y = (d, p)" and cs: "cs = pre' @ x # post" using dec by simp_all
      have "fst x < d" using pre Cons y by simp
      then have "fst x < d1" using False by simp
      then show ?thesis
        unfolding first_min_def c
        by (intro exI [of _ "(d, p) # (d1, p1) # pre'"] exI [of _ post])
          (use cs pre post Cons y in simp)
    qed
    then show ?thesis using sc False by (auto simp: c)
  qed
qed

lemma scan_PInf:
  assumes "cs \<noteq> []"
  shows "\<exists>x. first_min cs x \<and> scan (c0, PInf) cs = (snd x, Fin (fst x))"
proof -
  from assms obtain d p cs' where cs: "cs = (d, p) # cs'" by (cases cs) auto
  show ?thesis using scan_first_min [of d p cs'] by (simp add: cs)
qed

lemma first_min_mem: "first_min cs x \<Longrightarrow> x \<in> set cs"
  by (auto simp: first_min_def)

lemma barycentric_sum:
  "barycentric_weights a b c pt = Some w \<Longrightarrow> vx w + vy w + vz w = 1"
  by (auto simp: barycentric_weights_def Let_def split: if_splits)

lemma edge_candidate_valid:
  "valid_weights (weights (snd (edge_candidate m pt p q r)))"
  "indices (snd (edge_candidate m pt p q r)) = UVec3 p q r"
  by (simp_all add: edge_candidate_def Let_def valid_weights_def clamp01_range)

lemma spec_candidates_valid:
  assumes "x \<in> set (spec_candidates m pt tri)"
  shows "valid_weights (weights (snd x)) \<and> cyc tri (indices (snd x))"
proof -
  have e: "valid_weights (weights (snd (edge_candidate m pt p q r)))
           \<and> cyc tri (indices (snd (edge_candidate m pt p q r)))"
    if "UVec3 p q r = tri \<or> UVec3 p q r = UVec3 (uy tri) (uz tri) (ux tri)
        \<or> UVec3 p q r = UVec3 (uz tri) (ux tri) (uy tri)" for p q r
    using that by (auto simp: edge_candidate_valid cyc_def)
  have e1: "valid_weights (weights (snd (edge_candidate m pt (ux tri) (uy tri) (uz tri))))
           \<and> cyc tri (indices (snd (edge_candidate m pt (ux tri) (uy tri) (uz tri))))"
    by (rule e) simp
  have e2: "valid_weights (weights (snd (edge_candidate m pt (uy tri) (uz tri) (ux tri))))
           \<and> cyc tri (indices (snd (edge_candidate m pt (uy tri) (uz tri) (ux tri))))"
    by (rule e) simp
  have e3: "valid_weights (weights (snd (edge_candidate m pt (uz tri) (ux tri) (uy tri))))
           \<and> cyc tri (indices (snd (edge_candidate m pt (uz tri) (ux tri) (uy tri))))"
    by (rule e) simp
  show ?thesis
    using assms e1 e2 e3
    by (auto simp: spec_candidates_def Let_def valid_weights_def cyc_def
        dest: barycentric_sum split: option.splits if_splits)
qed

lemma spec_candidates_nonempty: "spec_candidates m pt tri \<noteq> []"
  by (simp add: spec_candidates_def Let_def split: option.splits)

lemma all_candidates_nonempty: "triangles m \<noteq> [] \<Longrightarrow> all_candidates m pt \<noteq> []"
  by (cases "triangles m") (simp_all add: all_candidates_def spec_candidates_nonempty)

lemma cyc_in_range:
  "tri_ok m tri \<Longrightarrow> cyc tri t \<Longrightarrow>
     unat (ux t) < length (vertices m) \<and> unat (uy t) < length (vertices m)
     \<and> unat (uz t) < length (vertices m)"
  by (auto simp: tri_ok_def cyc_def)

lemma all_candidates_valid:
  assumes ok: "list_all (tri_ok m) (triangles m)" and x: "x \<in> set (all_candidates m pt)"
  shows "valid_walkpoint m (snd x)
         \<and> unat (ux (indices (snd x))) < length (vertices m)
         \<and> unat (uy (indices (snd x))) < length (vertices m)
         \<and> unat (uz (indices (snd x))) < length (vertices m)"
proof -
  from x obtain tri where tri: "tri \<in> set (triangles m)" and xs: "x \<in> set (spec_candidates m pt tri)"
    by (auto simp: all_candidates_def)
  from ok tri have tok: "tri_ok m tri" by (simp add: list_all_iff)
  from spec_candidates_valid [OF xs] have v: "valid_weights (weights (snd x))"
    and c: "cyc tri (indices (snd x))" by simp_all
  have "list_ex (\<lambda>tri. cyc tri (indices (snd x))) (triangles m)"
    using tri c by (auto simp: list_ex_iff)
  then show ?thesis using v cyc_in_range [OF tok c] by (simp add: valid_walkpoint_def)
qed

lemma nearest_walk_point_first_min:
  assumes ok: "mesh_ok m" and ne: "triangles m \<noteq> []"
  shows "\<exists>x. first_min (all_candidates m pt) x \<and> nearest_walk_point c0 m pt = Inr (snd x)"
proof -
  from ok have tok: "list_all (tri_ok m) (triangles m)" by (simp add: mesh_ok_def)
  from scan_PInf [OF all_candidates_nonempty [OF ne, of pt], of c0] obtain x where
    fm: "first_min (all_candidates m pt) x" and
    sc: "scan (c0, PInf) (all_candidates m pt) = (snd x, Fin (fst x))" by blast
  have loop: "nearest_loop m pt (c0, PInf) (triangles m) = Inr (snd x, Fin (fst x))"
    using nearest_loop_scan [OF tok, of pt "(c0, PInf)"] sc by (simp add: all_candidates_def)
  have "nearest_walk_point c0 m pt = Inr (snd x)"
    using all_candidates_valid [OF tok first_min_mem [OF fm]] ne
    by (simp add: nearest_walk_point_def loop)
  with fm show ?thesis by blast
qed


section \<open>The result of walk_in_triangle is valid\<close>

lemma cross_on_edge_cross:
  "d \<le> 0 \<Longrightarrow> d < s \<Longrightarrow>
     cross_on_edge st k d s
       = (if flt_less (Fin (- s / (d - s))) (fst st) then (Fin (- s / (d - s)), k) else st)"
  by (simp add: cross_on_edge_def fdiv_def)

lemma cross_on_edge_either:
  assumes "0 \<le> s"
  shows "cross_on_edge st k d s
           = (if d \<le> 0 \<and> d < s \<and> flt_less (Fin (- s / (d - s))) (fst st)
              then (Fin (- s / (d - s)), k) else st)"
proof (cases "d \<le> 0 \<and> d < s")
  case True
  then show ?thesis by (simp add: cross_on_edge_cross)
next
  case False
  then have "cross_on_edge st k d s = st" using assms by (simp add: cross_on_edge_skip)
  with False show ?thesis by auto
qed

lemma first_cross_spec:
  fixes d s :: vec3
  assumes nn: "0 \<le> vx s" "0 \<le> vy s" "0 \<le> vz s"
  defines "cx \<equiv> - vx s / (vx d - vx s)" and "cy \<equiv> - vy s / (vy d - vy s)"
    and "cz \<equiv> - vz s / (vz d - vz s)"
  defines "X \<equiv> vx d \<le> 0 \<and> vx d < vx s" and "Y \<equiv> vy d \<le> 0 \<and> vy d < vy s"
    and "Z \<equiv> vz d \<le> 0 \<and> vz d < vz s"
  shows "(first_cross d s = (PInf, - 1) \<and> \<not> X \<and> \<not> Y \<and> \<not> Z)
         \<or> (\<exists>t. (first_cross d s = (Fin t, 0) \<and> X \<and> t = cx
                  \<or> first_cross d s = (Fin t, 1) \<and> Y \<and> t = cy
                  \<or> first_cross d s = (Fin t, 2) \<and> Z \<and> t = cz)
                \<and> (X \<longrightarrow> t \<le> cx) \<and> (Y \<longrightarrow> t \<le> cy) \<and> (Z \<longrightarrow> t \<le> cz))"
proof -
  have fc: "first_cross d s =
     (let st1 = (if X \<and> flt_less (Fin cx) PInf then (Fin cx, 0) else (PInf, - 1));
          st2 = (if Y \<and> flt_less (Fin cy) (fst st1) then (Fin cy, 1) else st1)
      in if Z \<and> flt_less (Fin cz) (fst st2) then (Fin cz, 2) else st2)"
    unfolding first_cross_def Let_def cross_on_edge_either [OF nn(1)]
      cross_on_edge_either [OF nn(2)] cross_on_edge_either [OF nn(3)]
    unfolding X_def Y_def Z_def cx_def cy_def cz_def
    by (simp only: fst_conv conj_assoc)
  show ?thesis
    unfolding fc Let_def
    by (cases X; cases Y; cases Z; cases "cy < cx"; cases "cz < cx"; cases "cz < cy") auto
qed


lemma weight_nonneg_cross:
  assumes "d < s" "t \<le> - s / (d - s)"
  shows "0 \<le> s + t * (d - (s::real))"
proof -
  have pos: "0 < s - d" using assms by simp
  have eq: "- s / (d - s) = s / (s - d)"
    by (metis minus_diff_eq minus_divide_divide)
  from assms(2) have "t * (s - d) \<le> s"
    unfolding eq using pos by (simp add: pos_le_divide_eq)
  then show ?thesis by (simp add: algebra_simps)
qed

lemma weight_zero_cross:
  assumes "d < (s::real)"
  shows "s + (- s / (d - s)) * (d - s) = 0"
  using assms by simp

lemma weight_nonneg_stay:
  assumes "0 \<le> s" "0 \<le> d" "0 \<le> t" "t \<le> (1::real)"
  shows "0 \<le> s + t * (d - s)"
proof -
  have "s + t * (d - s) = (1 - t) * s + t * d" by (simp add: algebra_simps)
  moreover have "0 \<le> (1 - t) * s" using assms by simp
  moreover have "0 \<le> t * d" using assms by simp
  ultimately show ?thesis by simp
qed

lemma crossing_time_le_1:
  assumes "d \<le> 0" "d < s" "0 \<le> (s::real)"
  shows "- s / (d - s) \<le> 1"
proof -
  have eq: "- s / (d - s) = s / (s - d)"
    by (metis minus_diff_eq minus_divide_divide)
  have pos: "0 < s - d" using assms by simp
  show ?thesis unfolding eq using assms pos by simp
qed

lemma dest_bary_sum:
  "dest_bary m start step = Inr d \<Longrightarrow> vx d + vy d + vz d = 1"
  by (auto simp: dest_bary_def dest: barycentric_sum split: option.splits)

lemma walk_in_triangle_Inr:
  assumes "walk_in_triangle m start step = Inr (e, t)"
  obtains d where "dest_bary m start step = Inr d"
    and "min1 (fst (first_cross d (weights start))) = Fin t" and "0 < t"
    and "e = (let w = vadd (weights start) (smul t (vsub d (weights start)));
                  k = snd (first_cross d (weights start))
              in if k = 0 then \<lparr>indices = UVec3 (uy (indices start)) (uz (indices start))
                                                (ux (indices start)),
                               weights = Vec3 (vy w) (vz w) 0\<rparr>
                 else if k = 1 then \<lparr>indices = UVec3 (uz (indices start)) (ux (indices start))
                                                     (uy (indices start)),
                                    weights = Vec3 (vz w) (vx w) 0\<rparr>
                 else if k = 2 then \<lparr>indices = indices start, weights = Vec3 (vx w) (vy w) 0\<rparr>
                 else \<lparr>indices = indices start, weights = w\<rparr>)"
  using assms
  by (auto simp: walk_in_triangle_def Let_def split: sum.splits flt.splits if_splits)

lemma walk_in_triangle_valid:
  assumes valid: "valid_weights (weights start)"
    and walk: "walk_in_triangle m start step = Inr (e, t)"
  shows "valid_weights (weights e) \<and> cyc (indices start) (indices e) \<and> 0 < t \<and> t \<le> 1"
proof -
  let ?s = "weights start"
  from walk obtain d where db: "dest_bary m start step = Inr d"
    and m1: "min1 (fst (first_cross d ?s)) = Fin t" and tpos: "0 < t"
    and e: "e = (let w = vadd ?s (smul t (vsub d ?s));
                  k = snd (first_cross d ?s)
              in if k = 0 then \<lparr>indices = UVec3 (uy (indices start)) (uz (indices start))
                                                (ux (indices start)),
                               weights = Vec3 (vy w) (vz w) 0\<rparr>
                 else if k = 1 then \<lparr>indices = UVec3 (uz (indices start)) (ux (indices start))
                                                     (uy (indices start)),
                                    weights = Vec3 (vz w) (vx w) 0\<rparr>
                 else if k = 2 then \<lparr>indices = indices start, weights = Vec3 (vx w) (vy w) 0\<rparr>
                 else \<lparr>indices = indices start, weights = w\<rparr>)"
    by (rule walk_in_triangle_Inr)
  have nn: "0 \<le> vx ?s" "0 \<le> vy ?s" "0 \<le> vz ?s" and ssum: "vx ?s + vy ?s + vz ?s = 1"
    using valid by (simp_all add: valid_weights_def)
  note dsum = dest_bary_sum [OF db]
  define w where "w = vadd ?s (smul t (vsub d ?s))"
  have wx: "vx w = vx ?s + t * (vx d - vx ?s)" and wy: "vy w = vy ?s + t * (vy d - vy ?s)"
    and wz: "vz w = vz ?s + t * (vz d - vz ?s)"
    by (simp_all add: w_def vec_defs)
  have wsum: "vx w + vy w + vz w = 1"
  proof -
    have "vx w + vy w + vz w
            = (vx ?s + vy ?s + vz ?s) + t * ((vx d + vy d + vz d) - (vx ?s + vy ?s + vz ?s))"
      unfolding wx wy wz by (simp add: algebra_simps)
    then show ?thesis by (simp add: ssum dsum)
  qed
  have le1: "t \<le> 1" using m1 by (auto simp: min1_def split: if_splits)
  have comp: "0 \<le> sj + t * (dj - sj)"
    if "0 \<le> sj" and "dj \<le> 0 \<and> dj < sj \<longrightarrow> t \<le> - sj / (dj - sj)" for sj dj
  proof (cases "dj \<le> 0 \<and> dj < sj")
    case True
    then show ?thesis using that weight_nonneg_cross [of dj sj t] by simp
  next
    case False
    then have "0 \<le> dj" using that(1) by auto
    then show ?thesis using weight_nonneg_stay [OF that(1) _ _ le1] tpos by simp
  qed
  from first_cross_spec [OF nn, of d]
  consider (none) "first_cross d ?s = (PInf, - 1)"
      "\<not> (vx d \<le> 0 \<and> vx d < vx ?s)" "\<not> (vy d \<le> 0 \<and> vy d < vy ?s)"
      "\<not> (vz d \<le> 0 \<and> vz d < vz ?s)"
    | (sel) t0 where
      "first_cross d ?s = (Fin t0, 0) \<and> (vx d \<le> 0 \<and> vx d < vx ?s) \<and> t0 = - vx ?s / (vx d - vx ?s)
       \<or> first_cross d ?s = (Fin t0, 1) \<and> (vy d \<le> 0 \<and> vy d < vy ?s) \<and> t0 = - vy ?s / (vy d - vy ?s)
       \<or> first_cross d ?s = (Fin t0, 2) \<and> (vz d \<le> 0 \<and> vz d < vz ?s) \<and> t0 = - vz ?s / (vz d - vz ?s)"
      "vx d \<le> 0 \<and> vx d < vx ?s \<longrightarrow> t0 \<le> - vx ?s / (vx d - vx ?s)"
      "vy d \<le> 0 \<and> vy d < vy ?s \<longrightarrow> t0 \<le> - vy ?s / (vy d - vy ?s)"
      "vz d \<le> 0 \<and> vz d < vz ?s \<longrightarrow> t0 \<le> - vz ?s / (vz d - vz ?s)"
    by blast
  then show ?thesis
  proof cases
    case none
    have "0 \<le> vx w" unfolding wx by (rule comp [OF nn(1)]) (use none(2) in blast)
    moreover have "0 \<le> vy w" unfolding wy by (rule comp [OF nn(2)]) (use none(3) in blast)
    moreover have "0 \<le> vz w" unfolding wz by (rule comp [OF nn(3)]) (use none(4) in blast)
    ultimately have wnn: "0 \<le> vx w" "0 \<le> vy w" "0 \<le> vz w" by simp_all
    have "e = \<lparr>indices = indices start, weights = w\<rparr>"
      unfolding e w_def [symmetric] by (simp add: none)
    then show ?thesis using wnn wsum tpos le1 by (simp add: valid_weights_def cyc_def)
  next
    case sel
    have t0le: "t0 \<le> 1"
      using sel(1) nn crossing_time_le_1 by auto
    have tt: "t = t0"
      using m1 sel(1) t0le by (auto simp: min1_Fin_le)
    have "0 \<le> vx w" unfolding wx by (rule comp [OF nn(1)]) (use sel(2) tt in blast)
    moreover have "0 \<le> vy w" unfolding wy by (rule comp [OF nn(2)]) (use sel(3) tt in blast)
    moreover have "0 \<le> vz w" unfolding wz by (rule comp [OF nn(3)]) (use sel(4) tt in blast)
    ultimately have wnn: "0 \<le> vx w" "0 \<le> vy w" "0 \<le> vz w" by simp_all
    from sel(1) show ?thesis
    proof (elim disjE conjE)
      assume fc: "first_cross d ?s = (Fin t0, 0)" and lt: "vx d < vx ?s"
        and t0: "t0 = - vx ?s / (vx d - vx ?s)"
      have z: "vx w = 0" unfolding wx tt t0 using weight_zero_cross [OF lt] .
      have "e = \<lparr>indices = UVec3 (uy (indices start)) (uz (indices start)) (ux (indices start)),
                 weights = Vec3 (vy w) (vz w) 0\<rparr>"
        unfolding e w_def [symmetric] by (simp add: fc)
      then show ?thesis using wnn wsum z tpos le1 by (simp add: valid_weights_def cyc_def)
    next
      assume fc: "first_cross d ?s = (Fin t0, 1)" and lt: "vy d < vy ?s"
        and t0: "t0 = - vy ?s / (vy d - vy ?s)"
      have z: "vy w = 0" unfolding wy tt t0 using weight_zero_cross [OF lt] .
      have "e = \<lparr>indices = UVec3 (uz (indices start)) (ux (indices start)) (uy (indices start)),
                 weights = Vec3 (vz w) (vx w) 0\<rparr>"
        unfolding e w_def [symmetric] by (simp add: fc)
      then show ?thesis using wnn wsum z tpos le1 by (simp add: valid_weights_def cyc_def)
    next
      assume fc: "first_cross d ?s = (Fin t0, 2)" and lt: "vz d < vz ?s"
        and t0: "t0 = - vz ?s / (vz d - vz ?s)"
      have z: "vz w = 0" unfolding wz tt t0 using weight_zero_cross [OF lt] .
      have "e = \<lparr>indices = indices start, weights = Vec3 (vx w) (vy w) 0\<rparr>"
        unfolding e w_def [symmetric] by (simp add: fc)
      then show ?thesis using wnn wsum z tpos le1 by (simp add: valid_weights_def cyc_def)
    qed
  qed
qed

section \<open>cross_edge onto the neighbouring triangle\<close>

lemma nondegenerate_rotate2: "nondegenerate a b c \<Longrightarrow> nondegenerate c a b"
  by (rule nondegenerate_rotate, rule nondegenerate_rotate)

lemma tri_ok_cyc: "tri_ok m tri \<Longrightarrow> cyc tri t \<Longrightarrow> tri_ok m t"
  by (auto simp: tri_ok_def cyc_def dest: nondegenerate_rotate nondegenerate_rotate2)

lemma mesh_ok_tri: "mesh_ok m \<Longrightarrow> list_ex (\<lambda>tri. cyc tri t) (triangles m) \<Longrightarrow> tri_ok m t"
  by (auto simp: mesh_ok_def list_all_iff list_ex_iff intro: tri_ok_cyc)

lemma valid_walkpoint_tri_ok: "mesh_ok m \<Longrightarrow> valid_walkpoint m p \<Longrightarrow> tri_ok m (indices p)"
  by (simp add: valid_walkpoint_def mesh_ok_tri)

lemma mesh_ok_twin:
  "mesh_ok m \<Longrightarrow> next_vertex m (a, b) = Some c \<Longrightarrow>
     list_ex (\<lambda>tri. cyc tri (UVec3 a b c)) (triangles m) \<and> tri_ok m (UVec3 a b c)"
  by (simp add: mesh_ok_def mesh_ok_tri)

text \<open>
  With a valid start point on the edge and an entry \<open>d\<close> for the reverse edge (whose
  first index is not the sentinel \<^verbatim>\<open>-1U\<close>), \<open>cross_edge\<close> returns \<open>true\<close>, the point on
  the triangle \<open>(indices.y, indices.x, d)\<close> with the first two weights exchanged, and
  \<open>rot\<close> applied to the normal of the old and the normal of the new triangle.
\<close>

lemma cross_edge_twin:
  assumes ok: "mesh_ok m" and valid: "valid_walkpoint m start"
    and z0: "vz (weights start) = 0"
    and nv: "next_vertex m (uy (indices start), ux (indices start)) = Some d"
    and sent: "uy (indices start) \<noteq> - 1"
  shows "cross_edge rot m start
           = Inr (\<lparr>indices = UVec3 (uy (indices start)) (ux (indices start)) d,
                   weights = Vec3 (vy (weights start)) (vx (weights start)) 0\<rparr>,
                  rot (normalize (cross (vsub (vertices m ! unat (uy (indices start)))
                                              (vertices m ! unat (ux (indices start))))
                                        (vsub (vertices m ! unat (uz (indices start)))
                                              (vertices m ! unat (ux (indices start))))))
                      (normalize (cross (vsub (vertices m ! unat (ux (indices start)))
                                              (vertices m ! unat (uy (indices start))))
                                        (vsub (vertices m ! unat d)
                                              (vertices m ! unat (uy (indices start)))))),
                  True)"
proof -
  let ?x = "ux (indices start)" and ?y = "uy (indices start)" and ?z = "uz (indices start)"
  let ?a0 = "vertices m ! unat ?x" and ?b0 = "vertices m ! unat ?y"
  let ?c0 = "vertices m ! unat ?z" and ?dv = "vertices m ! unat d"
  let ?s = "weights start"
  from valid_walkpoint_tri_ok [OF ok valid]
  have r: "unat ?x < length (vertices m)" "unat ?y < length (vertices m)"
    "unat ?z < length (vertices m)" by (simp_all add: tri_ok_def)
  from mesh_ok_twin [OF ok nv]
  have rd: "unat d < length (vertices m)" and nd: "nondegenerate ?b0 ?a0 ?dv"
    by (simp_all add: tri_ok_def)
  have sum: "vy ?s + vx ?s + 0 = 1"
    using valid z0 by (simp add: valid_walkpoint_def valid_weights_def)
  have tw: "to_world_point m start
              = Some (vadd (vadd (smul (vy ?s) ?b0) (smul (vx ?s) ?a0)) (smul 0 ?dv))"
    by (simp add: to_world_point_def vertex_def r z0 vec_defs)
  have bw: "barycentric_weights ?b0 ?a0 ?dv
              (vadd (vadd (smul (vy ?s) ?b0) (smul (vx ?s) ?a0)) (smul 0 ?dv))
              = Some (Vec3 (vy ?s) (vx ?s) 0)"
    by (rule barycentric_roundtrip [OF nd sum])
  show ?thesis
    by (simp add: cross_edge_def z0 nv sent vertex_def r rd tw bw Let_def)
qed

text \<open>The point returned has the world position of \<open>start\<close>.\<close>

lemma cross_edge_same_position:
  assumes ok: "mesh_ok m" and valid: "valid_walkpoint m start"
    and z0: "vz (weights start) = 0"
    and nv: "next_vertex m (uy (indices start), ux (indices start)) = Some d"
  shows "to_world_point m \<lparr>indices = UVec3 (uy (indices start)) (ux (indices start)) d,
                            weights = Vec3 (vy (weights start)) (vx (weights start)) 0\<rparr>
           = to_world_point m start
         \<and> to_world_point m start \<noteq> None"
proof -
  from valid_walkpoint_tri_ok [OF ok valid]
  have r: "unat (ux (indices start)) < length (vertices m)"
    "unat (uy (indices start)) < length (vertices m)"
    "unat (uz (indices start)) < length (vertices m)" by (simp_all add: tri_ok_def)
  from mesh_ok_twin [OF ok nv]
  have rd: "unat d < length (vertices m)" by (simp add: tri_ok_def)
  show ?thesis
    by (simp add: to_world_point_def vertex_def r rd z0 vec_defs)
qed

lemma cross_edge_valid:
  assumes ok: "mesh_ok m" and valid: "valid_walkpoint m start"
    and ce: "cross_edge rot m start = Inr (e, q, crossed)"
  shows "valid_walkpoint m e"
proof -
  have z0: "vz (weights start) = 0"
    using ce by (auto simp: cross_edge_def split: if_splits)
  show ?thesis
  proof (cases "next_vertex m (uy (indices start), ux (indices start))")
    case None
    then have "e = start" using ce z0 by (simp add: cross_edge_def)
    then show ?thesis using valid by simp
  next
    case (Some d)
    show ?thesis
    proof (cases "uy (indices start) = - 1")
      case True
      then have "e = start" using ce z0 Some by (simp add: cross_edge_def)
      then show ?thesis using valid by simp
    next
      case False
      from cross_edge_twin [OF ok valid z0 Some False, of rot] ce
      have e: "e = \<lparr>indices = UVec3 (uy (indices start)) (ux (indices start)) d,
                    weights = Vec3 (vy (weights start)) (vx (weights start)) 0\<rparr>"
        by simp
      show ?thesis
        using valid z0 mesh_ok_twin [OF ok Some]
        by (simp add: e valid_walkpoint_def valid_weights_def)
    qed
  qed
qed

lemma cyc_trans_start:
  "cyc tri s \<Longrightarrow> cyc s e \<Longrightarrow> cyc tri e"
  by (cases tri) (auto simp: cyc_def)

lemma walk_in_triangle_valid_walkpoint:
  assumes valid: "valid_walkpoint m start"
    and walk: "walk_in_triangle m start step = Inr (e, t)"
  shows "valid_walkpoint m e"
proof -
  from valid have vw: "valid_weights (weights start)" by (simp add: valid_walkpoint_def)
  from walk_in_triangle_valid [OF vw walk]
  have 1: "valid_weights (weights e)" and 2: "cyc (indices start) (indices e)" by simp_all
  from valid obtain tri where "tri \<in> set (triangles m)" "cyc tri (indices start)"
    by (auto simp: valid_walkpoint_def list_ex_iff)
  then have "list_ex (\<lambda>tri. cyc tri (indices e)) (triangles m)"
    using cyc_trans_start [OF _ 2] by (auto simp: list_ex_iff)
  with 1 show ?thesis by (simp add: valid_walkpoint_def)
qed

lemma nearest_walk_point_valid:
  assumes ok: "mesh_ok m" and n: "nearest_walk_point c0 m pt = Inr p"
  shows "valid_walkpoint m p"
proof -
  have ne: "triangles m \<noteq> []" using n by (auto simp: nearest_walk_point_def split: if_splits)
  from ok have tok: "list_all (tri_ok m) (triangles m)" by (simp add: mesh_ok_def)
  from nearest_walk_point_first_min [OF ok ne, of pt c0] n obtain x where
    "first_min (all_candidates m pt) x" "p = snd x" by auto
  then show ?thesis using all_candidates_valid [OF tok first_min_mem] by blast
qed

section \<open>Calls that return\<close>

text \<open>
  On a mesh that satisfies \<open>mesh_ok\<close> the destination of a valid WalkPoint always has
  barycentric weights, and \<open>walk_in_triangle\<close> returns from every start strictly inside
  its triangle.
\<close>

lemma barycentric_defined:
  "nondegenerate a b c \<Longrightarrow> \<exists>w. barycentric_weights a b c pt = Some w"
  unfolding denom_nonzero by (simp add: barycentric_weights_def Let_def)

lemma dest_bary_defined:
  assumes ok: "mesh_ok m" and valid: "valid_walkpoint m start"
  shows "\<exists>d. dest_bary m start step = Inr d"
proof -
  from valid_walkpoint_tri_ok [OF ok valid]
  have r: "unat (ux (indices start)) < length (vertices m)"
    "unat (uy (indices start)) < length (vertices m)"
    "unat (uz (indices start)) < length (vertices m)"
    and nd: "nondegenerate (vertices m ! unat (ux (indices start)))
               (vertices m ! unat (uy (indices start))) (vertices m ! unat (uz (indices start)))"
    by (simp_all add: tri_ok_def)
  from barycentric_defined [OF nd] show ?thesis
    by (auto simp: dest_bary_def to_world_point_def vertex_def r split: option.splits)
qed

lemma walk_in_triangle_returns:
  assumes ok: "mesh_ok m" and valid: "valid_walkpoint m start"
    and pos: "0 < vx (weights start)" "0 < vy (weights start)" "0 < vz (weights start)"
  shows "\<exists>e t. walk_in_triangle m start step = Inr (e, t)"
proof -
  from dest_bary_defined [OF ok valid] obtain d where db: "dest_bary m start step = Inr d" ..
  have "\<exists>t. min1 (fst (first_cross d (weights start))) = Fin t \<and> 0 < t"
    using first_cross_time [of "weights start" d] pos by (auto simp: min1_def)
  then obtain t where "min1 (fst (first_cross d (weights start))) = Fin t" "0 < t"
    by blast
  then show ?thesis
    by (simp add: walk_in_triangle_def db Let_def)
qed

section \<open>The validity invariant\<close>

lemmas nearest_eval = nearest_walk_point_def nearest_step_def check_edges_def check_edge_def

text \<open>
  C8. On a mesh built by the constructor, the WalkPoint returned by
  \<open>nearest_walk_point\<close>, the WalkPoint returned by \<open>walk_in_triangle\<close> from a valid
  start, and the WalkPoint returned by \<open>cross_edge\<close> from a valid start are valid: the
  three weights are at least 0 and sum to 1 (floats read as reals), and the index
  triple is a cyclic permutation of a triangle of the triangle list. A call whose
  assertion fails returns nothing.
\<close>

theorem results_valid:
  assumes "WalkMesh_ctor vs ns tris = Inr m"
  shows "(nearest_walk_point c0 m pt = Inr p \<longrightarrow> valid_walkpoint m p)
       \<and> (valid_walkpoint m start \<and> walk_in_triangle m start step = Inr (e, t)
            \<longrightarrow> valid_walkpoint m e)
       \<and> (valid_walkpoint m start \<and> cross_edge rot m start = Inr (e', q, crossed)
            \<longrightarrow> valid_walkpoint m e')"
  using WalkMesh_ctor_mesh_ok [OF assms]
  by (blast intro: nearest_walk_point_valid walk_in_triangle_valid_walkpoint cross_edge_valid)

text \<open>
  On the square: the nearest point to \<open>(1/5, 1/5, 5)\<close>, a walk that reaches the diagonal
  after half of its step, and the crossing of the diagonal.
\<close>

theorem results_valid_witness:
  "WalkMesh_ctor [Vec3 0 0 0, Vec3 1 0 0, Vec3 0 1 0, Vec3 1 1 0]
     [Vec3 0 0 1, Vec3 0 0 1, Vec3 0 0 1, Vec3 0 0 1] [UVec3 0 1 2, UVec3 1 3 2] = Inr square_mesh
   \<and> nearest_walk_point \<lparr>indices = UVec3 (- 1) (- 1) (- 1), weights = Vec3 0 0 0\<rparr> square_mesh
        (Vec3 (1/5) (1/5) 5) = Inr \<lparr>indices = UVec3 0 1 2, weights = Vec3 (3/5) (1/5) (1/5)\<rparr>
   \<and> valid_walkpoint square_mesh \<lparr>indices = UVec3 0 1 2, weights = Vec3 (3/5) (1/5) (1/5)\<rparr>
   \<and> valid_walkpoint square_mesh \<lparr>indices = UVec3 0 1 2, weights = Vec3 (1/2) (1/4) (1/4)\<rparr>
   \<and> walk_in_triangle square_mesh \<lparr>indices = UVec3 0 1 2, weights = Vec3 (1/2) (1/4) (1/4)\<rparr>
        (Vec3 (1/2) (1/2) 0) = Inr (\<lparr>indices = UVec3 1 2 0, weights = Vec3 (1/2) (1/2) 0\<rparr>, 1/2)
   \<and> valid_walkpoint square_mesh \<lparr>indices = UVec3 1 2 0, weights = Vec3 (1/2) (1/2) 0\<rparr>
   \<and> cross_edge (\<lambda>_ _. Quat 1 0 0 0) square_mesh
        \<lparr>indices = UVec3 1 2 0, weights = Vec3 (1/2) (1/2) 0\<rparr>
        = Inr (\<lparr>indices = UVec3 2 1 3, weights = Vec3 (1/2) (1/2) 0\<rparr>, Quat 1 0 0 0, True)
   \<and> valid_walkpoint square_mesh \<lparr>indices = UVec3 2 1 3, weights = Vec3 (1/2) (1/2) 0\<rparr>"
proof -
  have n: "nearest_walk_point \<lparr>indices = UVec3 (- 1) (- 1) (- 1), weights = Vec3 0 0 0\<rparr> square_mesh
        (Vec3 (1/5) (1/5) 5) = Inr \<lparr>indices = UVec3 0 1 2, weights = Vec3 (3/5) (1/5) (1/5)\<rparr>"
    by (simp add: nearest_eval walk_eval square_mesh_def)
  have v: "valid_walkpoint square_mesh \<lparr>indices = UVec3 0 1 2, weights = Vec3 (1/2) (1/4) (1/4)\<rparr>"
    by (simp add: valid_walkpoint_def valid_weights_def cyc_def square_mesh_def)
  have w: "walk_in_triangle square_mesh \<lparr>indices = UVec3 0 1 2, weights = Vec3 (1/2) (1/4) (1/4)\<rparr>
        (Vec3 (1/2) (1/2) 0) = Inr (\<lparr>indices = UVec3 1 2 0, weights = Vec3 (1/2) (1/2) 0\<rparr>, 1/2)"
    by (simp add: walk_eval square_mesh_def)
  have c: "cross_edge (\<lambda>_ _. Quat 1 0 0 0) square_mesh
        \<lparr>indices = UVec3 1 2 0, weights = Vec3 (1/2) (1/2) 0\<rparr>
        = Inr (\<lparr>indices = UVec3 2 1 3, weights = Vec3 (1/2) (1/2) 0\<rparr>, Quat 1 0 0 0, True)"
    by (simp add: cross_edge_def walk_eval square_mesh_def)
  note r = results_valid [OF square_mesh_ctor]
  from r [of "\<lparr>indices = UVec3 (- 1) (- 1) (- 1), weights = Vec3 0 0 0\<rparr>" "Vec3 (1/5) (1/5) 5"
        "\<lparr>indices = UVec3 0 1 2, weights = Vec3 (3/5) (1/5) (1/5)\<rparr>"
        "\<lparr>indices = UVec3 0 1 2, weights = Vec3 (1/2) (1/4) (1/4)\<rparr>" "Vec3 (1/2) (1/2) 0"
        "\<lparr>indices = UVec3 1 2 0, weights = Vec3 (1/2) (1/2) 0\<rparr>" "1/2"]
    r [of _ _ _ "\<lparr>indices = UVec3 1 2 0, weights = Vec3 (1/2) (1/2) 0\<rparr>" _ _ _
        "\<lambda>_ _. Quat 1 0 0 0" "\<lparr>indices = UVec3 2 1 3, weights = Vec3 (1/2) (1/2) 0\<rparr>"
        "Quat 1 0 0 0" True]
  show ?thesis using square_mesh_ctor n v w c by simp
qed

section \<open>The nearest point is the first minimum\<close>








section \<open>Loading the collection\<close>

lemma remap_triangles_Inr:
  "remap_triangles filename e ts = Inr r \<Longrightarrow>
     list_all (\<lambda>t. vertex_begin e \<le> ux t \<and> ux t < vertex_end e
                  \<and> vertex_begin e \<le> uy t \<and> uy t < vertex_end e
                  \<and> vertex_begin e \<le> uz t \<and> uz t < vertex_end e) ts"
proof (induction ts arbitrary: r)
  case Nil
  then show ?case by simp
next
  case (Cons t ts)
  from Cons.prems obtain r' where "remap_triangles filename e ts = Inr r'"
    by (auto split: if_splits sum.splits)
  from Cons.IH [OF this] Cons.prems show ?case
    by (auto split: if_splits)
qed

lemma load_entry_Inr:
  assumes "load_entry filename vs ns tris names meshes e = Inr meshes'"
  shows "entry_ok vs tris names e \<and> meshes (entry_name names e) = None
         \<and> (\<exists>wm. meshes' = meshes(entry_name names e \<mapsto> wm))"
proof -
  from assms have ranges:
    "name_begin e \<le> name_end e \<and> unat (name_end e) \<le> length names"
    "vertex_begin e \<le> vertex_end e \<and> unat (vertex_end e) \<le> length vs"
    "triangle_begin e \<le> triangle_end e \<and> unat (triangle_end e) \<le> length tris"
    unfolding load_entry_def by (auto split: if_splits)
  from assms ranges obtain r wm where
    r: "remap_triangles filename e (slice tris (triangle_begin e) (triangle_end e)) = Inr r"
    and "WalkMesh_ctor (slice vs (vertex_begin e) (vertex_end e))
           (slice ns (vertex_begin e) (vertex_end e)) r = Inr wm"
    and fresh: "meshes (entry_name names e) = None"
    and res: "meshes' = meshes(entry_name names e \<mapsto> wm)"
    unfolding load_entry_def entry_name_def
    by (auto simp: Let_def split: sum.splits if_splits)
  show ?thesis
    using ranges remap_triangles_Inr [OF r] fresh res by (auto simp: entry_ok_def)
qed

lemma load_index_Inr:
  "load_index filename vs ns tris names meshes es = Inr meshes' \<Longrightarrow>
     list_all (entry_ok vs tris names) es
     \<and> distinct (map (entry_name names) es)
     \<and> entry_name names ` set es \<inter> dom meshes = {}
     \<and> dom meshes' = dom meshes \<union> entry_name names ` set es"
proof (induction es arbitrary: meshes)
  case Nil
  then show ?case by simp
next
  case (Cons e es)
  from Cons.prems obtain ms1 where
    1: "load_entry filename vs ns tris names meshes e = Inr ms1" and
    2: "load_index filename vs ns tris names ms1 es = Inr meshes'"
    by (auto split: sum.splits)
  from load_entry_Inr [OF 1] obtain wm where
    ok: "entry_ok vs tris names e" and fresh: "meshes (entry_name names e) = None"
    and ms1: "ms1 = meshes(entry_name names e \<mapsto> wm)" by blast
  have d1: "dom ms1 = insert (entry_name names e) (dom meshes)" by (simp add: ms1)
  from Cons.IH [OF 2] have ih:
    "list_all (entry_ok vs tris names) es" "distinct (map (entry_name names) es)"
    "entry_name names ` set es \<inter> dom ms1 = {}"
    "dom meshes' = dom ms1 \<union> entry_name names ` set es" by simp_all
  show ?case using ok fresh ih unfolding d1 by (auto simp: dom_def)
qed

lemmas load_eval = WalkMeshes_ctor_def load_entry_def slice_def quoted_def

text \<open>
  C9 (as amended). Loading either fails with an error, and then there is no
  collection at all, or returns the whole collection: position and normal buffers of
  equal size, every index entry with well-ordered ranges inside their buffers and with
  triangles that refer to its own vertex range only, all names distinct, and exactly
  one WalkMesh per entry. Whether the ranges of two entries overlap is not checked.
\<close>

theorem load_checks_each_entry:
  assumes "WalkMeshes_ctor filename vs ns tris names index = Inr meshes"
  shows "length vs = length ns
         \<and> list_all (entry_ok vs tris names) index
         \<and> distinct (map (entry_name names) index)
         \<and> dom meshes = entry_name names ` set index"
proof -
  from assms have len: "length vs = length ns"
    and li: "load_index filename vs ns tris names Map.empty index = Inr meshes"
    by (auto simp: WalkMeshes_ctor_def split: if_splits)
  from load_index_Inr [OF li] len show ?thesis by simp
qed

text \<open>
  Two entries with the same vertex range and the same triangle range, under the names
  \<open>a\<close> and \<open>b\<close>: loading succeeds and returns the unit triangle twice.
\<close>

theorem load_overlapping_counterexample:
  "overlapping
     \<lparr>name_begin = 0, name_end = 1, vertex_begin = 0, vertex_end = 3,
      triangle_begin = 0, triangle_end = 1\<rparr>
     \<lparr>name_begin = 1, name_end = 2, vertex_begin = 0, vertex_end = 3,
      triangle_begin = 0, triangle_end = 1\<rparr>
   \<and> WalkMeshes_ctor ''f'' [Vec3 0 0 0, Vec3 1 0 0, Vec3 0 1 0]
       [Vec3 0 0 1, Vec3 0 0 1, Vec3 0 0 1] [UVec3 0 1 2] ''ab''
       [\<lparr>name_begin = 0, name_end = 1, vertex_begin = 0, vertex_end = 3,
         triangle_begin = 0, triangle_end = 1\<rparr>,
        \<lparr>name_begin = 1, name_end = 2, vertex_begin = 0, vertex_end = 3,
         triangle_begin = 0, triangle_end = 1\<rparr>]
     = Inr [''a'' \<mapsto> unit_mesh, ''b'' \<mapsto> unit_mesh]"
  by (simp add: overlapping_def ranges_meet_def load_eval unit_mesh_ctor)

theorem load_checks_each_entry_witness:
  "WalkMeshes_ctor ''f'' [Vec3 0 0 0, Vec3 1 0 0, Vec3 0 1 0]
       [Vec3 0 0 1, Vec3 0 0 1, Vec3 0 0 1] [UVec3 0 1 2] ''ab''
       [\<lparr>name_begin = 0, name_end = 1, vertex_begin = 0, vertex_end = 3,
         triangle_begin = 0, triangle_end = 1\<rparr>,
        \<lparr>name_begin = 1, name_end = 2, vertex_begin = 0, vertex_end = 3,
         triangle_begin = 0, triangle_end = 1\<rparr>]
     = Inr [''a'' \<mapsto> unit_mesh, ''b'' \<mapsto> unit_mesh]
   \<and> dom [''a'' \<mapsto> unit_mesh, ''b'' \<mapsto> unit_mesh] = {''a'', ''b''}
   \<and> entry_ok [Vec3 0 0 0, Vec3 1 0 0, Vec3 0 1 0] [UVec3 0 1 2] ''ab''
        \<lparr>name_begin = 1, name_end = 2, vertex_begin = 0, vertex_end = 3,
         triangle_begin = 0, triangle_end = 1\<rparr>"
proof -
  have l: "WalkMeshes_ctor ''f'' [Vec3 0 0 0, Vec3 1 0 0, Vec3 0 1 0]
       [Vec3 0 0 1, Vec3 0 0 1, Vec3 0 0 1] [UVec3 0 1 2] ''ab''
       [\<lparr>name_begin = 0, name_end = 1, vertex_begin = 0, vertex_end = 3,
         triangle_begin = 0, triangle_end = 1\<rparr>,
        \<lparr>name_begin = 1, name_end = 2, vertex_begin = 0, vertex_end = 3,
         triangle_begin = 0, triangle_end = 1\<rparr>]
     = Inr [''a'' \<mapsto> unit_mesh, ''b'' \<mapsto> unit_mesh]"
    by (simp add: load_eval unit_mesh_ctor)
  from load_checks_each_entry [OF l] l show ?thesis by auto
qed

end
